theory Spec2Isabelle
  imports Complex_Main "HOL-Library.Char_ord" "HOL-Library.List_Lexorder" "HOL-Library.Log_Nat"
begin

section \<open>Python values used by entities.py\<close>

text \<open>
  Exceptions are values: every function that can raise returns \<open>error + 'a\<close>, with
  \<open>Inl\<close> the exception that reaches the caller. \<open>OtherError\<close> stands for the exceptions
  of the validations module, which is not among the sources.
\<close>

datatype error =
    KeyError
  | AttributeError
  | TypeError
  | ValueError
  | ZeroDivisionError
  | SubscriptionNotPartOfTenant "string set"
  | OtherError string

text \<open>A Python dict with string keys, as an association list in insertion order.\<close>

type_synonym 'v dict = "(string \<times> 'v) list"

definition dict_get :: "'v dict \<Rightarrow> string \<Rightarrow> 'v \<Rightarrow> 'v" where
  "dict_get d k dflt = (case map_of d k of None \<Rightarrow> dflt | Some v \<Rightarrow> v)"

text \<open>
  \<open>str.lower()\<close> on the ASCII letters; the bytes outside \<open>A..Z\<close> are left as they are.
\<close>

definition lower_char :: "char \<Rightarrow> char" where
  "lower_char c =
     (case map_of (zip ''ABCDEFGHIJKLMNOPQRSTUVWXYZ'' ''abcdefghijklmnopqrstuvwxyz'') c of
        None \<Rightarrow> c
      | Some d \<Rightarrow> d)"

definition lower :: "string \<Rightarrow> string" where
  "lower s = map lower_char s"

section \<open>Finding\<close>

text \<open>
  \<open>Finding\<close> wraps the raw record \<open>_data\<close>; every property is \<open>_data.get(key, '')\<close>.
  Cell values are strings.
\<close>

datatype Finding = Finding (data: "string dict")

definition Finding_subscription_id :: "Finding \<Rightarrow> string" where
  "Finding_subscription_id f = dict_get (data f) ''subscriptionId'' ''''"

definition Finding_resource_group :: "Finding \<Rightarrow> string" where
  "Finding_resource_group f = dict_get (data f) ''resourceGroup'' ''''"

definition Finding_severity :: "Finding \<Rightarrow> string" where
  "Finding_severity f = dict_get (data f) ''severity'' ''''"

definition measurement_data :: "Finding \<Rightarrow> string dict" where
  "measurement_data f =
     [(''Subscription ID'', Finding_subscription_id f),
      (''Resource Group Name'', Finding_resource_group f),
      (''Severity'', Finding_severity f)]"

text \<open>
  The class defines \<open>__eq__\<close> and \<open>__ne__\<close> and no \<open>__hash__\<close>. Python then sets the
  class attribute \<open>__hash__\<close> to \<open>None\<close>, and \<open>hash(x)\<close> on an instance raises
  \<open>TypeError\<close> (unhashable type). \<open>Finding_hash\<close> is \<open>hash(self)\<close> for a
  \<open>Finding\<close>.
\<close>

datatype pyobject = FindingObject Finding | OtherObject

definition Finding_hash :: "Finding \<Rightarrow> error + int" where
  "Finding_hash f = Inl TypeError"

definition Finding_eq :: "Finding \<Rightarrow> pyobject \<Rightarrow> error + bool" where
  "Finding_eq self other =
     (case other of
        OtherObject \<Rightarrow> Inl ValueError
      | FindingObject other' \<Rightarrow>
          (case Finding_hash self of
             Inl e \<Rightarrow> Inl e
           | Inr h1 \<Rightarrow>
               (case Finding_hash other' of
                  Inl e \<Rightarrow> Inl e
                | Inr h2 \<Rightarrow> Inr (h1 = h2))))"

definition Finding_ne :: "Finding \<Rightarrow> pyobject \<Rightarrow> error + bool" where
  "Finding_ne self other =
     (case other of
        OtherObject \<Rightarrow> Inl ValueError
      | FindingObject other' \<Rightarrow>
          (case Finding_hash self of
             Inl e \<Rightarrow> Inl e
           | Inr h1 \<Rightarrow>
               (case Finding_hash other' of
                  Inl e \<Rightarrow> Inl e
                | Inr h2 \<Rightarrow> Inr (h1 \<noteq> h2))))"

section \<open>The pandas operations of get\_energy\_label\<close>

text \<open>
  A \<open>DataFrame\<close> is its column labels and its rows; a cell a row has no value for is
  \<open>NaN\<close>, here \<open>None\<close>. \<open>pd.DataFrame(list of dicts)\<close> takes the union of the keys, in
  order of first appearance, as columns: the empty list gives a frame with no column.
\<close>

record DataFrame =
  columns :: "string list"
  rows :: "string dict list"

definition pd_DataFrame :: "string dict list \<Rightarrow> DataFrame" where
  "pd_DataFrame ds =
     \<lparr>columns = rev (remdups (rev (concat (map (map fst) ds)))), rows = ds\<rparr>"

text \<open>\<open>df[c]\<close>: the column as a list of cells, \<open>KeyError\<close> when there is no such column.\<close>

definition getitem_column :: "DataFrame \<Rightarrow> string \<Rightarrow> error + string option list" where
  "getitem_column df c =
     (if c \<in> set (columns df) then Inr (map (\<lambda>r. map_of r c) (rows df)) else Inl KeyError)"

text \<open>\<open>series == v\<close>: the boolean mask; \<open>NaN\<close> equals nothing.\<close>

definition series_eq :: "string option list \<Rightarrow> string \<Rightarrow> bool list" where
  "series_eq col v = map (\<lambda>c. c = Some v) col"

text \<open>\<open>df[mask]\<close>: the rows where the mask is true, with the same columns.\<close>

definition getitem_mask :: "DataFrame \<Rightarrow> bool list \<Rightarrow> DataFrame" where
  "getitem_mask df bs = df\<lparr>rows := map fst (filter snd (zip (rows df) bs))\<rparr>"

text \<open>\<open>df[df['Severity'] == s].shape[0]\<close>\<close>

definition number_of_findings :: "DataFrame \<Rightarrow> string \<Rightarrow> error + int" where
  "number_of_findings df s =
     (case getitem_column df ''Severity'' of
        Inl e \<Rightarrow> Inl e
      | Inr col \<Rightarrow> Inr (int (length (rows (getitem_mask df (series_eq col s))))))"

text \<open>
  The argument of \<open>get_energy_label\<close> is a \<open>DataFrame\<close>, used as it is, or a list of
  findings, turned into a frame of their measurement data.
\<close>

datatype findings_arg = Frame DataFrame | Findings "Finding list"

definition as_dataframe :: "findings_arg \<Rightarrow> DataFrame" where
  "as_dataframe findings =
     (case findings of
        Frame df \<Rightarrow> df
      | Findings fs \<Rightarrow> pd_DataFrame (map measurement_data fs))"

section \<open>Threshold tables and labels\<close>

text \<open>
  Modelled from the spec: the rule records of the configuration module
  (\<open>SUBSCRIPTION_THRESHOLDS\<close>, \<open>RESOURCE_GROUP_THRESHOLDS\<close>, \<open>TENANT_THRESHOLDS\<close>), which
  is not among the sources. A rule of an entity table is
  \<open>{label, high, medium, low}\<close> with integer maxima, a rule of the tenant table is
  \<open>{label, percentage}\<close>; the keys are the ones entities.py reads. The tables
  themselves are parameters.
\<close>

record threshold =
  label :: string
  high :: int
  medium :: int
  low :: int

record tenant_threshold =
  label :: string
  percentage :: rat

text \<open>
  Modelled from the spec: the label classes of the labels module, which is not among
  the sources. \<open>SubscriptionEnergyLabel\<close> and \<open>ResourceGroupEnergyLabel\<close> hold a label
  and the three counts (datamodels.py reads \<open>label\<close>, \<open>number_of_high_findings\<close>,
  \<open>number_of_medium_findings\<close>, \<open>number_of_low_findings\<close>);
  \<open>AggregateSubscriptionEnergyLabel\<close> holds the label, the best and the worst label
  and the number of subscriptions (entities.py reads \<open>label\<close>, \<open>best_label\<close>,
  \<open>worst_label\<close>).
\<close>

datatype label_class = ResourceGroupEnergyLabel | SubscriptionEnergyLabel

record EnergyLabel =
  cls :: label_class
  label :: string
  number_of_high_findings :: int
  number_of_medium_findings :: int
  number_of_low_findings :: int

record AggregateSubscriptionEnergyLabel =
  label :: string
  best_label :: string
  worst_label :: string
  number_of_subscriptions :: nat

definition mk_label :: "label_class \<Rightarrow> string \<Rightarrow> int \<Rightarrow> int \<Rightarrow> int \<Rightarrow> EnergyLabel" where
  "mk_label k lbl h m l =
     \<lparr>cls = k, EnergyLabel.label = lbl, number_of_high_findings = h,
      number_of_medium_findings = m, number_of_low_findings = l\<rparr>"

section \<open>Subscription and ResourceGroup\<close>

text \<open>
  \<open>energy_label\<close> is the attribute \<open>get_energy_label\<close> assigns; \<open>None\<close> is the attribute
  not being there yet, and reading it then raises \<open>AttributeError\<close>.
\<close>

record Subscription =
  subscription_id :: string
  display_name :: string
  subscription_thresholds :: "threshold list"
  energy_label :: "EnergyLabel option"

record ResourceGroup =
  name :: string
  location :: string
  threshold :: "threshold list"
  energy_label :: "EnergyLabel option"

definition rule_matches :: "int \<Rightarrow> int \<Rightarrow> int \<Rightarrow> threshold \<Rightarrow> bool" where
  "rule_matches h m l t \<longleftrightarrow> h \<le> high t \<and> m \<le> medium t \<and> l \<le> low t"

text \<open>
  The loop over the table, the same in both classes but for the label class: a rule that
  matches assigns its label and breaks; a rule that does not assigns \<open>F\<close> and goes on.
  The last argument is the attribute \<open>energy_label\<close> so far.
\<close>

fun threshold_loop ::
  "label_class \<Rightarrow> threshold list \<Rightarrow> int \<Rightarrow> int \<Rightarrow> int \<Rightarrow> EnergyLabel option \<Rightarrow> EnergyLabel option"
where
  "threshold_loop k [] h m l el = el"
| "threshold_loop k (t # ts) h m l el =
     (if rule_matches h m l t then Some (mk_label k (threshold.label t) h m l)
      else threshold_loop k ts h m l (Some (mk_label k ''F'' h m l)))"

text \<open>
  The second \<open>try\<close> block: the three counts, then the loop. \<open>Inl\<close> is an exception
  raised inside the block, which \<open>except Exception\<close> catches.
\<close>

definition label_block ::
  "label_class \<Rightarrow> threshold list \<Rightarrow> DataFrame \<Rightarrow> EnergyLabel option \<Rightarrow> error + EnergyLabel option"
where
  "label_block k ths open_findings el =
     (case number_of_findings open_findings ''High'' of
        Inl e \<Rightarrow> Inl e
      | Inr h \<Rightarrow>
          (case number_of_findings open_findings ''Medium'' of
             Inl e \<Rightarrow> Inl e
           | Inr m \<Rightarrow>
               (case number_of_findings open_findings ''Low'' of
                  Inl e \<Rightarrow> Inl e
                | Inr l \<Rightarrow> Inr (threshold_loop k ths h m l el))))"

definition Subscription_get_energy_label ::
  "Subscription \<Rightarrow> findings_arg \<Rightarrow> error + (EnergyLabel \<times> Subscription)"
where
  "Subscription_get_energy_label self findings =
     (let df = as_dataframe findings in
      case getitem_column df ''Subscription ID'' of
        Inl KeyError \<Rightarrow>
          (let el = mk_label ResourceGroupEnergyLabel ''A'' 0 0 0
           in Inr (el, self\<lparr>Subscription.energy_label := Some el\<rparr>))
      | Inl e \<Rightarrow> Inl e
      | Inr ids \<Rightarrow>
          (let open_findings = getitem_mask df (series_eq ids (Subscription.subscription_id self));
               self' =
                 (case label_block SubscriptionEnergyLabel (Subscription.subscription_thresholds self)
                         open_findings (Subscription.energy_label self) of
                    Inl e \<Rightarrow> self
                  | Inr el \<Rightarrow> self\<lparr>Subscription.energy_label := el\<rparr>)
           in case Subscription.energy_label self' of
                None \<Rightarrow> Inl AttributeError
              | Some el \<Rightarrow> Inr (el, self')))"


section \<open>Arithmetic of the percentage test\<close>

text \<open>
  \<open>sum(subscription_sums) / number_of_subscriptions * 100 >= percentage\<close> is computed
  in binary64: \<open>int / int\<close> is the quotient rounded to the nearest float (ties to
  even), \<open>float * 100\<close> the product rounded the same way, and the comparison with
  \<open>percentage\<close> is exact. A float is the rational it denotes. \<open>float_round\<close> rounds to
  a significand of 53 bits with no bound on the exponent: it is binary64 on every
  value between \<open>2^-1022\<close> and \<open>2^1024\<close>, which covers the quotient of two list
  lengths and its product with 100.
\<close>

definition round_half_even :: "rat \<Rightarrow> int" where
  "round_half_even x =
     (let f = \<lfloor>x\<rfloor>; d = x - of_int f
      in if d < 1 / 2 then f else if 1 / 2 < d then f + 1 else if even f then f else f + 1)"

text \<open>For \<open>x > 0\<close>, the exponent \<open>e\<close> with \<open>2^e \<le> x < 2^(e+1)\<close>.\<close>

definition binade :: "rat \<Rightarrow> int" where
  "binade x =
     (let (a, b) = quotient_of x;
          e = int (floorlog 2 (nat a)) - int (floorlog 2 (nat b))
      in if 2 powi e \<le> x then e else e - 1)"

definition float_round :: "rat \<Rightarrow> rat" where
  "float_round x =
     (if x = 0 then 0
      else (let e = binade \<bar>x\<bar> - 52
            in of_int (round_half_even (x / 2 powi e)) * 2 powi e))"

definition true_divide :: "int \<Rightarrow> int \<Rightarrow> error + rat" where
  "true_divide a b =
     (if b = 0 then Inl ZeroDivisionError else Inr (float_round (of_int a / of_int b)))"

definition float_mul :: "rat \<Rightarrow> rat \<Rightarrow> rat" where
  "float_mul x y = float_round (x * y)"

section \<open>Tenant\<close>

text \<open>
  \<open>subscriptions\<close> is the listing the subscription client returns.
  \<open>subscriptions_to_be_labeled_cache\<close> and \<open>targeted_subscriptions_energy_label\<close> are
  the attributes \<open>_subscriptions_to_be_labeled\<close> and
  \<open>_targeted_subscriptions_energy_label\<close>, \<open>None\<close> until first computed.
\<close>

record Tenant =
  tenant_id :: string
  thresholds :: "tenant_threshold list"
  subscription_thresholds :: "threshold list"
  resource_group_thresholds :: "threshold list"
  subscriptions :: "Subscription list"
  allowed_subscription_ids :: "string list"
  denied_subscription_ids :: "string list"
  subscriptions_to_be_labeled_cache :: "Subscription list option"
  targeted_subscriptions_energy_label :: "AggregateSubscriptionEnergyLabel option"

definition validate_tenant_subscription_ids :: "string list \<Rightarrow> string list \<Rightarrow> error + string list" where
  "validate_tenant_subscription_ids subscription_ids tenant_account_ids =
     (let subscriptions_not_in_tenant = set subscription_ids - set tenant_account_ids
      in if subscriptions_not_in_tenant \<noteq> {}
         then Inl (SubscriptionNotPartOfTenant subscriptions_not_in_tenant)
         else Inr subscription_ids)"

text \<open>
  \<open>Tenant.__init__\<close>. \<open>validate_allowed_denied_subscription_ids\<close> belongs to the
  validations module, which is not among the sources: it is a parameter, from the two
  arguments as given to the two lists or an exception. \<open>listing\<close> is what
  \<open>self.subscriptions\<close> returns. There is no findings argument.
\<close>

definition Tenant_init ::
  "('a \<Rightarrow> 'a \<Rightarrow> error + string list \<times> string list) \<Rightarrow> Subscription list \<Rightarrow> string \<Rightarrow>
   tenant_threshold list \<Rightarrow> threshold list \<Rightarrow> threshold list \<Rightarrow> 'a \<Rightarrow> 'a \<Rightarrow> error + Tenant"
where
  "Tenant_init validate_allowed_denied_subscription_ids listing tid ths sub_ths rg_ths
       allowed denied =
     (let subscription_ids = map Subscription.subscription_id listing in
      case validate_allowed_denied_subscription_ids allowed denied of
        Inl e \<Rightarrow> Inl e
      | Inr (allowed', denied') \<Rightarrow>
          (case validate_tenant_subscription_ids allowed' subscription_ids of
             Inl e \<Rightarrow> Inl e
           | Inr a \<Rightarrow>
               (case validate_tenant_subscription_ids denied' subscription_ids of
                  Inl e \<Rightarrow> Inl e
                | Inr d \<Rightarrow>
                    Inr \<lparr>tenant_id = tid, thresholds = ths, subscription_thresholds = sub_ths,
                         resource_group_thresholds = rg_ths, subscriptions = listing,
                         allowed_subscription_ids = a, denied_subscription_ids = d,
                         subscriptions_to_be_labeled_cache = None,
                         targeted_subscriptions_energy_label = None\<rparr>)))"

definition get_allowed_subscriptions :: "Tenant \<Rightarrow> Subscription list" where
  "get_allowed_subscriptions self =
     filter (\<lambda>s. Subscription.subscription_id s \<in> set (allowed_subscription_ids self))
       (subscriptions self)"

definition get_not_denied_subscriptions :: "Tenant \<Rightarrow> Subscription list" where
  "get_not_denied_subscriptions self =
     filter (\<lambda>s. Subscription.subscription_id s \<notin> set (denied_subscription_ids self))
       (subscriptions self)"

definition subscriptions_to_be_labeled :: "Tenant \<Rightarrow> Subscription list \<times> Tenant" where
  "subscriptions_to_be_labeled self =
     (case subscriptions_to_be_labeled_cache self of
        Some ss \<Rightarrow> (ss, self)
      | None \<Rightarrow>
          (let ss = (if allowed_subscription_ids self \<noteq> [] then get_allowed_subscriptions self
                     else if denied_subscription_ids self \<noteq> [] then get_not_denied_subscriptions self
                     else subscriptions self)
           in (ss, self\<lparr>subscriptions_to_be_labeled_cache := Some ss\<rparr>)))"

text \<open>
  The loop of \<open>get_labeled_targeted_subscriptions\<close>: each subscription labels itself
  from the frame and is appended; an exception of \<open>get_energy_label\<close> ends the loop.
\<close>

fun label_subscriptions :: "DataFrame \<Rightarrow> Subscription list \<Rightarrow> error + Subscription list" where
  "label_subscriptions df [] = Inr []"
| "label_subscriptions df (s # ss) =
     (case Subscription_get_energy_label s (Frame df) of
        Inl e \<Rightarrow> Inl e
      | Inr (el, s') \<Rightarrow>
          (case label_subscriptions df ss of
             Inl e \<Rightarrow> Inl e
           | Inr labeled \<Rightarrow> Inr (s' # labeled)))"

text \<open>
  The subscriptions are mutated in place, so the cached list holds them labeled
  afterwards.
\<close>

definition get_labeled_targeted_subscriptions ::
  "Tenant \<Rightarrow> Finding list \<Rightarrow> error + (Subscription list \<times> Tenant)"
where
  "get_labeled_targeted_subscriptions self defender_for_cloud_findings =
     (let dataframe_measurements = pd_DataFrame (map measurement_data defender_for_cloud_findings);
          (ss, self') = subscriptions_to_be_labeled self
      in case label_subscriptions dataframe_measurements ss of
           Inl e \<Rightarrow> Inl e
         | Inr labeled_subscriptions \<Rightarrow>
             Inr (labeled_subscriptions,
                  self'\<lparr>subscriptions_to_be_labeled_cache := Some labeled_subscriptions\<rparr>))"

text \<open>
  The loop over \<open>self.thresholds\<close>. \<open>labels\<close> are the labels the counter was built
  from, so \<open>label_counter.get(label, 0)\<close> is \<open>count_list labels label\<close>.
  \<open>Inr (Some label)\<close> is the \<open>break\<close> with that label, \<open>Inr None\<close> the \<open>else\<close>
  branch of the loop.
\<close>

fun tenant_threshold_loop ::
  "string list \<Rightarrow> nat \<Rightarrow> tenant_threshold list \<Rightarrow> int list \<Rightarrow> error + string option"
where
  "tenant_threshold_loop labels n [] subscription_sums = Inr None"
| "tenant_threshold_loop labels n (t # ts) subscription_sums =
     (let subscription_sums' =
            subscription_sums @ [int (count_list labels (tenant_threshold.label t))]
      in case true_divide (sum_list subscription_sums') (int n) of
           Inl e \<Rightarrow> Inl e
         | Inr q \<Rightarrow>
             if percentage t \<le> float_mul q 100 then Inr (Some (tenant_threshold.label t))
             else tenant_threshold_loop labels n ts subscription_sums')"

text \<open>
  \<open>min(label_counter.keys())\<close> and \<open>max(label_counter.keys())\<close>: strings compare
  lexicographically by character code; \<open>ValueError\<close> when there is no key.
\<close>

definition min_key :: "string list \<Rightarrow> error + string" where
  "min_key labels = (case labels of [] \<Rightarrow> Inl ValueError | x # xs \<Rightarrow> Inr (fold min xs x))"

definition max_key :: "string list \<Rightarrow> error + string" where
  "max_key labels = (case labels of [] \<Rightarrow> Inl ValueError | x # xs \<Rightarrow> Inr (fold max xs x))"

text \<open>
  The body of \<open>get_energy_label_of_targeted_subscriptions\<close> once the subscriptions are
  labeled: the counter, the loop, and the aggregate label built at the \<open>break\<close> or in the
  \<open>else\<close> branch.
\<close>

definition aggregate_energy_label ::
  "tenant_threshold list \<Rightarrow> Subscription list \<Rightarrow> error + AggregateSubscriptionEnergyLabel"
where
  "aggregate_energy_label ths labeled_subscriptions =
     (case those (map Subscription.energy_label labeled_subscriptions) of
        None \<Rightarrow> Inl AttributeError
      | Some els \<Rightarrow>
          (let labels = map EnergyLabel.label els;
               number_of_subscriptions = length labeled_subscriptions
           in case tenant_threshold_loop labels number_of_subscriptions ths [] of
                Inl e \<Rightarrow> Inl e
              | Inr found \<Rightarrow>
                  (case min_key labels of
                     Inl e \<Rightarrow> Inl e
                   | Inr best \<Rightarrow>
                       (case max_key labels of
                          Inl e \<Rightarrow> Inl e
                        | Inr worst \<Rightarrow>
                            Inr \<lparr>AggregateSubscriptionEnergyLabel.label =
                                   (case found of Some l \<Rightarrow> l | None \<Rightarrow> ''F''),
                                 best_label = best, worst_label = worst,
                                 number_of_subscriptions = number_of_subscriptions\<rparr>))))"

definition get_energy_label_of_targeted_subscriptions ::
  "Tenant \<Rightarrow> Finding list \<Rightarrow> error + (AggregateSubscriptionEnergyLabel \<times> Tenant)"
where
  "get_energy_label_of_targeted_subscriptions self defender_for_cloud_findings =
     (case targeted_subscriptions_energy_label self of
        Some cached \<Rightarrow> Inr (cached, self)
      | None \<Rightarrow>
          (case get_labeled_targeted_subscriptions self defender_for_cloud_findings of
             Inl e \<Rightarrow> Inl e
           | Inr (labeled_subscriptions, self') \<Rightarrow>
               (case aggregate_energy_label (thresholds self') labeled_subscriptions of
                  Inl e \<Rightarrow> Inl e
                | Inr aggregate \<Rightarrow>
                    Inr (aggregate,
                         self'\<lparr>targeted_subscriptions_energy_label := Some aggregate\<rparr>))))"

section \<open>Notions the properties are stated with\<close>


text \<open>
  The labels of a list of labeled subscriptions, in order.
\<close>

definition subscription_labels :: "Subscription list \<Rightarrow> string list" where
  "subscription_labels ss = map EnergyLabel.label (List.map_filter Subscription.energy_label ss)"

text \<open>
  The running total when rule \<open>i\<close> of the table is reached: every rule up to \<open>i\<close> has
  added the number of subscriptions that carry exactly its label.
\<close>

definition cumulative_count :: "string list \<Rightarrow> tenant_threshold list \<Rightarrow> nat \<Rightarrow> int" where
  "cumulative_count labels ths i =
     (\<Sum>t\<leftarrow>take (Suc i) ths. int (count_list labels (tenant_threshold.label t)))"

text \<open>The value of \<open>c / n * 100\<close> for \<open>n\<close> not zero.\<close>

definition percentage_of :: "int \<Rightarrow> nat \<Rightarrow> rat" where
  "percentage_of c n = float_mul (float_round (of_int c / of_int (int n))) 100"

definition threshold_reached :: "string list \<Rightarrow> tenant_threshold list \<Rightarrow> nat \<Rightarrow> bool" where
  "threshold_reached labels ths i \<longleftrightarrow>
     percentage (ths ! i) \<le> percentage_of (cumulative_count labels ths i) (length labels)"

section \<open>Lemmas on the frame operations and the loops\<close>



lemma columns_getitem_mask: "columns (getitem_mask df bs) = columns df"
  by (simp add: getitem_mask_def)


lemma number_of_findings_no_column:
  assumes "''Severity'' \<notin> set (columns df)"
  shows "number_of_findings (getitem_mask df bs) s = Inl KeyError"
  using assms by (simp add: number_of_findings_def getitem_column_def columns_getitem_mask)










section \<open>Rounding is monotone\<close>

lemma round_half_even_bounds:
  "\<lfloor>x\<rfloor> \<le> round_half_even x \<and> round_half_even x \<le> \<lfloor>x\<rfloor> + 1"
  by (simp add: round_half_even_def Let_def)

lemma round_half_even_of_int: "round_half_even (of_int k) = k"
  by (simp add: round_half_even_def Let_def)

lemma round_half_even_mono:
  assumes "x \<le> y"
  shows "round_half_even x \<le> round_half_even y"
proof (cases "\<lfloor>x\<rfloor> = \<lfloor>y\<rfloor>")
  case True
  with assms have "x - of_int \<lfloor>x\<rfloor> \<le> y - of_int \<lfloor>y\<rfloor>" by simp
  with True show ?thesis
    by (auto simp: round_half_even_def Let_def)
next
  case False
  with floor_mono [OF assms] have "\<lfloor>x\<rfloor> + 1 \<le> \<lfloor>y\<rfloor>" by linarith
  with round_half_even_bounds [of x] round_half_even_bounds [of y] show ?thesis by linarith
qed

lemma floorlog_rat_bounds:
  assumes "0 < (a::int)"
  shows "(2::rat) ^ (floorlog 2 (nat a) - 1) \<le> of_int a"
    and "of_int a < (2::rat) ^ floorlog 2 (nat a)"
    and "0 < floorlog 2 (nat a)"
proof -
  from assms have pos: "0 < nat a" by simp
  from floorlog_bounds [OF pos, of 2]
  have b: "2 ^ (floorlog 2 (nat a) - 1) \<le> nat a" "nat a < 2 ^ floorlog 2 (nat a)" by simp_all
  from b(1) have "int (2 ^ (floorlog 2 (nat a) - 1)) \<le> a" using assms by linarith
  then have "(of_int (2 ^ (floorlog 2 (nat a) - 1)) :: rat) \<le> of_int a"
    by (simp only: of_int_le_iff) simp
  then show "(2::rat) ^ (floorlog 2 (nat a) - 1) \<le> of_int a" by simp
  from b(2) have "a < int (2 ^ floorlog 2 (nat a))" using assms by linarith
  then have "(of_int a :: rat) < of_int (2 ^ floorlog 2 (nat a))"
    by (simp only: of_int_less_iff) simp
  then show "of_int a < (2::rat) ^ floorlog 2 (nat a)" by simp
  show "0 < floorlog 2 (nat a)"
    using pos by (simp add: floorlog_def)
qed

lemma binade_bounds:
  assumes "0 < x"
  shows "2 powi (binade x) \<le> x \<and> x < 2 powi (binade x + 1)"
proof -
  obtain a b where q: "quotient_of x = (a, b)" by (cases "quotient_of x")
  then have b: "0 < b" by (rule quotient_of_denom_pos)
  have x: "x = of_int a / of_int b" using q by (rule quotient_of_div)
  with assms b have a: "0 < a" by (simp add: zero_less_divide_iff)
  define la where "la = floorlog 2 (nat a)"
  define lb where "lb = floorlog 2 (nat b)"
  note A = floorlog_rat_bounds [OF a, folded la_def]
  note B = floorlog_rat_bounds [OF b, folded lb_def]
  have bpos: "(0::rat) < of_int b" using b by simp
  have "x < 2 ^ la / 2 ^ (lb - 1)"
    unfolding x using A(2) B(1) a bpos
    by (intro frac_less) simp_all
  also have "\<dots> = 2 powi (int la - int lb + 1)"
  proof -
    have e: "int la - int lb + 1 = int la - int (lb - 1)" using B(3) by simp
    have "(2::rat) powi (int la - int (lb - 1)) = 2 powi (int la) / 2 powi (int (lb - 1))"
      by (rule power_int_diff) simp
    then show ?thesis unfolding e by (simp only: power_int_of_nat)
  qed
  finally have upper: "x < 2 powi (int la - int lb + 1)" .
  have "(2::rat) ^ (la - 1) / 2 ^ lb \<le> x"
    unfolding x using A(1) B(2) a bpos
    by (intro frac_le) simp_all
  moreover have "(2::rat) ^ (la - 1) / 2 ^ lb = 2 powi (int la - int lb - 1)"
  proof -
    have e: "int la - int lb - 1 = int (la - 1) - int lb" using A(3) by simp
    have "(2::rat) powi (int (la - 1) - int lb) = 2 powi (int (la - 1)) / 2 powi (int lb)"
      by (rule power_int_diff) simp
    then show ?thesis unfolding e by (simp only: power_int_of_nat)
  qed
  ultimately have lower: "2 powi (int la - int lb - 1) \<le> x" by simp
  have bin: "binade x = (if 2 powi (int la - int lb) \<le> x then int la - int lb else int la - int lb - 1)"
    by (simp add: binade_def q la_def lb_def Let_def)
  show ?thesis
  proof (cases "2 powi (int la - int lb) \<le> x")
    case True
    with upper bin show ?thesis by simp
  next
    case False
    with lower bin show ?thesis by simp
  qed
qed

lemma binade_mono:
  assumes "0 < x" and "x \<le> y"
  shows "binade x \<le> binade y"
proof (rule ccontr)
  assume "\<not> binade x \<le> binade y"
  then have "binade y + 1 \<le> binade x" by simp
  then have "(2::rat) powi (binade y + 1) \<le> 2 powi (binade x)"
    by (intro power_int_increasing) simp_all
  with binade_bounds [of x] binade_bounds [of y] assms show False by simp
qed

lemma float_round_zero: "float_round 0 = 0"
  by (simp add: float_round_def)

lemma float_round_pos:
  assumes "0 < x"
  shows "float_round x = of_int (round_half_even (x / 2 powi (binade x - 52))) * 2 powi (binade x - 52)"
  using assms by (simp add: float_round_def Let_def)

lemma float_round_bounds:
  assumes "0 < x"
  shows "2 powi (binade x) \<le> float_round x \<and> float_round x \<le> 2 powi (binade x + 1)"
proof -
  define e where "e = binade x - 52"
  have p: "(0::rat) < 2 powi e" by simp
  have lo: "(2::rat) powi (binade x) = 2 ^ 52 * 2 powi e"
    unfolding e_def by (simp add: power_int_diff)
  have hi: "(2::rat) powi (binade x + 1) = 2 ^ 53 * 2 powi e"
    unfolding e_def by (simp add: power_int_diff power_int_add)
  from binade_bounds [OF assms] lo hi
  have "2 ^ 52 * 2 powi e \<le> x" "x \<le> 2 ^ 53 * 2 powi e" by simp_all
  with p have "2 ^ 52 \<le> x / 2 powi e" "x / 2 powi e \<le> 2 ^ 53"
    by (simp_all add: pos_le_divide_eq pos_divide_le_eq)
  then have "round_half_even (of_int (2 ^ 52)) \<le> round_half_even (x / 2 powi e)"
            "round_half_even (x / 2 powi e) \<le> round_half_even (of_int (2 ^ 53))"
    by (intro round_half_even_mono; simp)+
  then have "2 ^ 52 \<le> round_half_even (x / 2 powi e)" "round_half_even (x / 2 powi e) \<le> 2 ^ 53"
    by (simp_all only: round_half_even_of_int)
  then have "(of_int (2 ^ 52) :: rat) \<le> of_int (round_half_even (x / 2 powi e))"
            "(of_int (round_half_even (x / 2 powi e)) :: rat) \<le> of_int (2 ^ 53)"
    by (simp_all only: of_int_le_iff)
  then have "(2 ^ 52 :: rat) \<le> of_int (round_half_even (x / 2 powi e))"
            "(of_int (round_half_even (x / 2 powi e)) :: rat) \<le> 2 ^ 53"
    by simp_all
  then have "(2 ^ 52 :: rat) * 2 powi e \<le> of_int (round_half_even (x / 2 powi e)) * 2 powi e"
            "(of_int (round_half_even (x / 2 powi e)) :: rat) * 2 powi e \<le> 2 ^ 53 * 2 powi e"
    using p by (intro mult_right_mono; simp)+
  then show ?thesis
    unfolding lo hi float_round_pos [OF assms] e_def by simp
qed

lemma float_round_nonneg: "0 \<le> x \<Longrightarrow> 0 \<le> float_round x"
proof (cases "x = 0")
  case True
  then show ?thesis by (simp add: float_round_zero)
next
  case False
  assume "0 \<le> x"
  with False have "0 < x" by simp
  from float_round_bounds [OF this] have "2 powi (binade x) \<le> float_round x" by simp
  moreover have "(0::rat) < 2 powi (binade x)" by simp
  ultimately show ?thesis by linarith
qed

lemma float_round_mono:
  assumes "0 \<le> x" and "x \<le> y"
  shows "float_round x \<le> float_round y"
proof (cases "x = 0")
  case True
  with assms float_round_nonneg [of y] show ?thesis by (simp add: float_round_zero)
next
  case False
  with assms have x: "0 < x" and y: "0 < y" by simp_all
  from binade_mono [OF x assms(2)] have le: "binade x \<le> binade y" .
  show ?thesis
  proof (cases "binade x = binade y")
    case True
    have "x / 2 powi (binade y - 52) \<le> y / 2 powi (binade y - 52)"
      using assms(2) by (simp add: divide_right_mono)
    then have "round_half_even (x / 2 powi (binade y - 52)) \<le> round_half_even (y / 2 powi (binade y - 52))"
      by (rule round_half_even_mono)
    then have "(of_int (round_half_even (x / 2 powi (binade y - 52))) :: rat) \<le>
               of_int (round_half_even (y / 2 powi (binade y - 52)))"
      by (simp only: of_int_le_iff)
    then show ?thesis
      unfolding float_round_pos [OF x] float_round_pos [OF y] True
      by (simp add: mult_right_mono)
  next
    case False
    with le have "binade x + 1 \<le> binade y" by simp
    then have "(2::rat) powi (binade x + 1) \<le> 2 powi (binade y)"
      by (intro power_int_increasing) simp_all
    with float_round_bounds [OF x] float_round_bounds [OF y] show ?thesis by linarith
  qed
qed

section \<open>Lemmas on the aggregation\<close>

lemma true_divide_nonzero:
  "n \<noteq> 0 \<Longrightarrow> true_divide c (int n) = Inr (float_round (of_int c / of_int (int n)))"
  by (simp add: true_divide_def)

lemma cumulative_count_Cons_0:
  "cumulative_count labels (t # ts) 0 = int (count_list labels (tenant_threshold.label t))"
  by (simp add: cumulative_count_def)

lemma cumulative_count_Cons_Suc:
  "cumulative_count labels (t # ts) (Suc i) =
     int (count_list labels (tenant_threshold.label t)) + cumulative_count labels ts i"
  by (simp add: cumulative_count_def)

lemma tenant_threshold_loop_zero:
  "ts \<noteq> [] \<Longrightarrow> tenant_threshold_loop labels 0 ts acc = Inl ZeroDivisionError"
  by (cases ts) (simp_all add: true_divide_def Let_def)

lemma tenant_threshold_loop_first:
  assumes "n \<noteq> 0" and "i < length ts"
      and "percentage (ts ! i) \<le> percentage_of (sum_list acc + cumulative_count labels ts i) n"
      and "\<forall>j<i. \<not> percentage (ts ! j) \<le> percentage_of (sum_list acc + cumulative_count labels ts j) n"
  shows "tenant_threshold_loop labels n ts acc = Inr (Some (tenant_threshold.label (ts ! i)))"
  using assms(2-)
proof (induction ts arbitrary: acc i)
  case Nil
  then show ?case by simp
next
  case (Cons t ts)
  show ?case
  proof (cases i)
    case 0
    with Cons.prems assms(1) show ?thesis
      by (simp add: true_divide_nonzero Let_def percentage_of_def cumulative_count_Cons_0)
  next
    case (Suc i')
    from Cons.prems(3) Suc
    have head: "\<not> percentage t \<le> percentage_of (sum_list acc + int (count_list labels (tenant_threshold.label t))) n"
      by (auto simp: cumulative_count_Cons_0 dest: spec [of _ 0])
    have rest: "tenant_threshold_loop labels n ts (acc @ [int (count_list labels (tenant_threshold.label t))]) =
                  Inr (Some (tenant_threshold.label (ts ! i')))"
    proof (rule Cons.IH)
      show "i' < length ts" using Cons.prems(1) Suc by simp
      show "percentage (ts ! i') \<le>
              percentage_of (sum_list (acc @ [int (count_list labels (tenant_threshold.label t))]) +
                             cumulative_count labels ts i') n"
        using Cons.prems(2) Suc by (simp add: cumulative_count_Cons_Suc add.assoc)
      show "\<forall>j<i'. \<not> percentage (ts ! j) \<le>
              percentage_of (sum_list (acc @ [int (count_list labels (tenant_threshold.label t))]) +
                             cumulative_count labels ts j) n"
      proof (intro allI impI)
        fix j assume "j < i'"
        then have "Suc j < i" using Suc by simp
        with Cons.prems(3) show "\<not> percentage (ts ! j) \<le>
              percentage_of (sum_list (acc @ [int (count_list labels (tenant_threshold.label t))]) +
                             cumulative_count labels ts j) n"
          by (auto simp: cumulative_count_Cons_Suc add.assoc dest: spec [of _ "Suc j"])
      qed
    qed
    from head rest assms(1) Suc show ?thesis
      by (simp add: true_divide_nonzero Let_def percentage_of_def)
  qed
qed

lemma tenant_threshold_loop_none:
  assumes "n \<noteq> 0"
      and "\<forall>j<length ts. \<not> percentage (ts ! j) \<le> percentage_of (sum_list acc + cumulative_count labels ts j) n"
  shows "tenant_threshold_loop labels n ts acc = Inr None"
  using assms(2)
proof (induction ts arbitrary: acc)
  case Nil
  then show ?case by simp
next
  case (Cons t ts)
  from Cons.prems
  have head: "\<not> percentage t \<le> percentage_of (sum_list acc + int (count_list labels (tenant_threshold.label t))) n"
    by (auto simp: cumulative_count_Cons_0 dest: spec [of _ 0])
  have rest: "tenant_threshold_loop labels n ts (acc @ [int (count_list labels (tenant_threshold.label t))]) = Inr None"
  proof (rule Cons.IH, intro allI impI)
    fix j assume "j < length ts"
    then have "Suc j < length (t # ts)" by simp
    with Cons.prems show "\<not> percentage (ts ! j) \<le>
              percentage_of (sum_list (acc @ [int (count_list labels (tenant_threshold.label t))]) +
                             cumulative_count labels ts j) n"
      by (auto simp: cumulative_count_Cons_Suc add.assoc dest: spec [of _ "Suc j"])
  qed
  from head rest assms(1) show ?case
    by (simp add: true_divide_nonzero Let_def percentage_of_def)
qed

lemma min_key_nonempty: "labels \<noteq> [] \<Longrightarrow> min_key labels = Inr (Min (set labels))"
proof (cases labels)
  case Nil
  assume "labels \<noteq> []"
  with Nil show ?thesis by simp
next
  case (Cons x xs)
  have "fold min xs x = Min (set (x # xs))" by (rule Min.set_eq_fold [symmetric])
  with Cons show ?thesis by (simp add: min_key_def)
qed

lemma max_key_nonempty: "labels \<noteq> [] \<Longrightarrow> max_key labels = Inr (Max (set labels))"
proof (cases labels)
  case Nil
  assume "labels \<noteq> []"
  with Nil show ?thesis by simp
next
  case (Cons x xs)
  have "fold max xs x = Max (set (x # xs))" by (rule Max.set_eq_fold [symmetric])
  with Cons show ?thesis by (simp add: max_key_def)
qed

lemma those_all_Some:
  "\<forall>x\<in>set xs. x \<noteq> None \<Longrightarrow> those xs = Some (List.map_filter id xs)"
  by (induction xs) (auto simp: List.map_filter_simps)

lemma those_energy_labels:
  assumes "\<forall>s\<in>set ss. Subscription.energy_label s \<noteq> None"
  shows "those (map Subscription.energy_label ss) = Some (List.map_filter Subscription.energy_label ss)"
proof -
  have "List.map_filter id (map Subscription.energy_label ss) = List.map_filter Subscription.energy_label ss"
    by (induction ss) (auto simp: List.map_filter_simps split: option.splits)
  with those_all_Some [of "map Subscription.energy_label ss"] assms show ?thesis by simp
qed

lemma length_subscription_labels:
  assumes "\<forall>s\<in>set ss. Subscription.energy_label s \<noteq> None"
  shows "length (subscription_labels ss) = length ss"
  using assms by (induction ss) (auto simp: subscription_labels_def List.map_filter_simps)

lemma aggregate_energy_label_labeled:
  assumes "\<forall>s\<in>set ss. Subscription.energy_label s \<noteq> None"
  shows "aggregate_energy_label ths ss =
           (case tenant_threshold_loop (subscription_labels ss) (length ss) ths [] of
              Inl e \<Rightarrow> Inl e
            | Inr found \<Rightarrow>
                (case min_key (subscription_labels ss) of
                   Inl e \<Rightarrow> Inl e
                 | Inr best \<Rightarrow>
                     (case max_key (subscription_labels ss) of
                        Inl e \<Rightarrow> Inl e
                      | Inr worst \<Rightarrow>
                          Inr \<lparr>AggregateSubscriptionEnergyLabel.label =
                                 (case found of Some l \<Rightarrow> l | None \<Rightarrow> ''F''),
                               best_label = best, worst_label = worst,
                               number_of_subscriptions = length ss\<rparr>)))"
  unfolding aggregate_energy_label_def subscription_labels_def those_energy_labels [OF assms]
  by (simp add: Let_def)

lemma aggregate_energy_label_first:
  assumes "ss \<noteq> []" and "\<forall>s\<in>set ss. Subscription.energy_label s \<noteq> None"
      and "i < length ths" and "threshold_reached (subscription_labels ss) ths i"
      and "\<forall>j<i. \<not> threshold_reached (subscription_labels ss) ths j"
  shows "aggregate_energy_label ths ss =
           Inr \<lparr>AggregateSubscriptionEnergyLabel.label = tenant_threshold.label (ths ! i),
                best_label = Min (set (subscription_labels ss)),
                worst_label = Max (set (subscription_labels ss)),
                number_of_subscriptions = length ss\<rparr>"
proof -
  have len: "length (subscription_labels ss) = length ss"
    by (rule length_subscription_labels [OF assms(2)])
  with assms(1) have ne: "subscription_labels ss \<noteq> []" by auto
  have "tenant_threshold_loop (subscription_labels ss) (length ss) ths [] =
          Inr (Some (tenant_threshold.label (ths ! i)))"
    using assms(1,3,4,5) by (intro tenant_threshold_loop_first) (simp_all add: threshold_reached_def len)
  then show ?thesis
    by (simp add: aggregate_energy_label_labeled [OF assms(2)] min_key_nonempty [OF ne]
        max_key_nonempty [OF ne])
qed

lemma aggregate_energy_label_none:
  assumes "ss \<noteq> []" and "\<forall>s\<in>set ss. Subscription.energy_label s \<noteq> None"
      and "\<forall>j<length ths. \<not> threshold_reached (subscription_labels ss) ths j"
  shows "aggregate_energy_label ths ss =
           Inr \<lparr>AggregateSubscriptionEnergyLabel.label = ''F'',
                best_label = Min (set (subscription_labels ss)),
                worst_label = Max (set (subscription_labels ss)),
                number_of_subscriptions = length ss\<rparr>"
proof -
  have len: "length (subscription_labels ss) = length ss"
    by (rule length_subscription_labels [OF assms(2)])
  with assms(1) have ne: "subscription_labels ss \<noteq> []" by auto
  have "tenant_threshold_loop (subscription_labels ss) (length ss) ths [] = Inr None"
    using assms(1,3) by (intro tenant_threshold_loop_none) (simp_all add: threshold_reached_def len)
  then show ?thesis
    by (simp add: aggregate_energy_label_labeled [OF assms(2)] min_key_nonempty [OF ne]
        max_key_nonempty [OF ne])
qed

lemma Subscription_get_energy_label_sets:
  "Subscription_get_energy_label s fa = Inr (el, s') \<Longrightarrow> Subscription.energy_label s' = Some el"
  by (auto simp: Subscription_get_energy_label_def Let_def
      split: sum.splits error.splits option.splits)

lemma label_subscriptions_labeled:
  "label_subscriptions df ss = Inr labeled \<Longrightarrow>
     length labeled = length ss \<and> (\<forall>s\<in>set labeled. Subscription.energy_label s \<noteq> None)"
proof (induction ss arbitrary: labeled)
  case Nil
  then show ?case by simp
next
  case (Cons s ss)
  from Cons.prems obtain el s' rest where
    head: "Subscription_get_energy_label s (Frame df) = Inr (el, s')" and
    tail: "label_subscriptions df ss = Inr rest" and
    eq: "labeled = s' # rest"
    by (auto split: sum.splits prod.splits)
  from Subscription_get_energy_label_sets [OF head] have "Subscription.energy_label s' \<noteq> None"
    by simp
  with Cons.IH [OF tail] eq show ?case by simp
qed

lemma subscriptions_to_be_labeled_thresholds:
  "subscriptions_to_be_labeled t = (ss, t') \<Longrightarrow> thresholds t' = thresholds t \<and> targeted_subscriptions_energy_label t' = targeted_subscriptions_energy_label t"
  by (auto simp: subscriptions_to_be_labeled_def Let_def split: option.splits)

lemma get_labeled_targeted_subscriptions_labeled:
  assumes "get_labeled_targeted_subscriptions t findings = Inr (labeled, t')"
  shows "thresholds t' = thresholds t" and "\<forall>s\<in>set labeled. Subscription.energy_label s \<noteq> None"
  using assms
  by (auto simp: get_labeled_targeted_subscriptions_def Let_def
      split: prod.splits sum.splits
      dest: subscriptions_to_be_labeled_thresholds label_subscriptions_labeled)

lemma count_list_split:
  "l \<notin> set ls \<Longrightarrow>
     length (filter (\<lambda>x. x = l \<or> x \<in> set ls) xs) =
       count_list xs l + length (filter (\<lambda>x. x \<in> set ls) xs)"
  by (induction xs) auto

lemma sum_count_list_distinct:
  "distinct ls \<Longrightarrow>
     (\<Sum>l\<leftarrow>ls. int (count_list xs l)) = int (length (filter (\<lambda>x. x \<in> set ls) xs))"
proof (induction ls)
  case Nil
  then show ?case by simp
next
  case (Cons l ls)
  then show ?case by (simp add: count_list_split)
qed

lemma sorted_wrt_less_distinct:
  "sorted_wrt (<) (xs :: 'a :: linorder list) \<Longrightarrow> distinct xs"
  by (induction xs) auto

lemma cumulative_count_at_or_better:
  assumes sorted: "sorted_wrt (<) (map tenant_threshold.label ths)"
      and k: "k < length ths"
      and cover: "\<forall>x\<in>set labels. x \<le> tenant_threshold.label (ths ! k) \<longrightarrow>
                    x \<in> tenant_threshold.label ` set ths"
  shows "cumulative_count labels ths k =
           int (length (filter (\<lambda>x. x \<le> tenant_threshold.label (ths ! k)) labels))"
proof -
  let ?ls = "map tenant_threshold.label ths"
  let ?pre = "take (Suc k) ?ls"
  have d: "distinct ?pre"
    using sorted by (intro distinct_take sorted_wrt_less_distinct)
  have "cumulative_count labels ths k = (\<Sum>l\<leftarrow>?pre. int (count_list labels l))"
    by (simp add: cumulative_count_def take_map o_def)
  also have "\<dots> = int (length (filter (\<lambda>x. x \<in> set ?pre) labels))"
    by (rule sum_count_list_distinct [OF d])
  also have "filter (\<lambda>x. x \<in> set ?pre) labels =
             filter (\<lambda>x. x \<le> tenant_threshold.label (ths ! k)) labels"
  proof (rule filter_cong [OF refl])
    fix x assume x: "x \<in> set labels"
    show "(x \<in> set ?pre) = (x \<le> tenant_threshold.label (ths ! k))"
    proof
      assume "x \<in> set ?pre"
      then obtain j where j: "j < Suc k" "j < length ?ls" "x = ?ls ! j"
        by (auto simp: in_set_conv_nth)
      show "x \<le> tenant_threshold.label (ths ! k)"
      proof (cases "j = k")
        case True
        with j k show ?thesis by simp
      next
        case False
        with j have "j < k" by simp
        with sorted k have "?ls ! j < ?ls ! k"
          by (intro sorted_wrt_nth_less) simp_all
        with j k show ?thesis by simp
      qed
    next
      assume le: "x \<le> tenant_threshold.label (ths ! k)"
      with cover x have "x \<in> set ?ls" by auto
      then obtain j where j: "j < length ?ls" "x = ?ls ! j"
        by (auto simp: in_set_conv_nth)
      have "j \<le> k"
      proof (rule ccontr)
        assume "\<not> j \<le> k"
        then have "k < j" by simp
        with sorted j have "?ls ! k < ?ls ! j"
          by (intro sorted_wrt_nth_less) simp_all
        with j le k show False by simp
      qed
      with j show "x \<in> set ?pre"
        by (auto simp: in_set_conv_nth intro!: exI [of _ j])
    qed
  qed
  finally show ?thesis .
qed

lemma get_energy_label_of_targeted_subscriptions_uncached:
  assumes "targeted_subscriptions_energy_label tenant = None"
      and "get_labeled_targeted_subscriptions tenant findings = Inr (labeled, tenant')"
  shows "get_energy_label_of_targeted_subscriptions tenant findings =
           (case aggregate_energy_label (thresholds tenant) labeled of
              Inl e \<Rightarrow> Inl e
            | Inr aggregate \<Rightarrow>
                Inr (aggregate, tenant'\<lparr>targeted_subscriptions_energy_label := Some aggregate\<rparr>))"
  using assms get_labeled_targeted_subscriptions_labeled(1) [OF assms(2)]
  by (simp add: get_energy_label_of_targeted_subscriptions_def)

lemma subscription_labels_append:
  "subscription_labels (xs @ ys) = subscription_labels xs @ subscription_labels ys"
  by (simp add: subscription_labels_def List.map_filter_def)

lemma subscription_labels_Cons:
  "Subscription.energy_label s = Some el \<Longrightarrow>
     subscription_labels (s # ss) = EnergyLabel.label el # subscription_labels ss"
  by (simp add: subscription_labels_def List.map_filter_simps)

lemma count_list_append_Cons:
  "count_list (xs @ a # ys) l = count_list (xs @ ys) l + (if a = l then 1 else 0)"
  by (induction xs) auto

lemma sum_absent_label:
  "\<forall>u\<in>set us. tenant_threshold.label u \<noteq> a \<Longrightarrow>
     (\<Sum>t\<leftarrow>us. (if a = tenant_threshold.label t then 1 else 0 :: int)) = 0"
  by (induction us) auto

lemma sum_added_label:
  assumes "distinct (map tenant_threshold.label ts)"
      and "ts \<noteq> []" and "tenant_threshold.label (hd ts) = a" and "i < length ts"
  shows "(\<Sum>t\<leftarrow>take (Suc i) ts. (if a = tenant_threshold.label t then 1 else 0 :: int)) = 1"
proof (cases ts)
  case Nil
  with assms(2) show ?thesis by simp
next
  case (Cons t rest)
  with assms(1,3) have "a \<notin> tenant_threshold.label ` set rest" by auto
  then have "\<forall>u\<in>set rest. tenant_threshold.label u \<noteq> a" by blast
  then have "\<forall>u\<in>set (take i rest). tenant_threshold.label u \<noteq> a"
    by (auto dest: in_set_takeD)
  then have "(\<Sum>t\<leftarrow>take i rest. (if a = tenant_threshold.label t then 1 else 0 :: int)) = 0"
    by (rule sum_absent_label)
  with Cons assms(3) show ?thesis by simp
qed

lemma cumulative_count_added_label:
  assumes "distinct (map tenant_threshold.label ts)"
      and "ts \<noteq> []" and "tenant_threshold.label (hd ts) = a" and "i < length ts"
  shows "cumulative_count (xs @ a # ys) ts i = cumulative_count (xs @ ys) ts i + 1"
proof -
  have "cumulative_count (xs @ a # ys) ts i =
          (\<Sum>t\<leftarrow>take (Suc i) ts. int (count_list (xs @ ys) (tenant_threshold.label t)) +
                                   (if a = tenant_threshold.label t then 1 else 0))"
    unfolding cumulative_count_def
    by (intro arg_cong [where f = sum_list] map_cong refl) (simp add: count_list_append_Cons)
  also have "\<dots> = cumulative_count (xs @ ys) ts i +
                    (\<Sum>t\<leftarrow>take (Suc i) ts. (if a = tenant_threshold.label t then 1 else 0))"
    by (simp add: sum_list_addf cumulative_count_def)
  finally show ?thesis
    using sum_added_label [OF assms] by simp
qed

lemma cumulative_count_bounds:
  assumes "distinct (map tenant_threshold.label ts)"
  shows "0 \<le> cumulative_count xs ts i" and "cumulative_count xs ts i \<le> int (length xs)"
proof -
  have d: "distinct (map tenant_threshold.label (take (Suc i) ts))"
    using assms by (simp add: take_map [symmetric] distinct_take)
  have "cumulative_count xs ts i =
          (\<Sum>l\<leftarrow>map tenant_threshold.label (take (Suc i) ts). int (count_list xs l))"
    by (simp add: cumulative_count_def o_def)
  also have "\<dots> = int (length (filter (\<lambda>x. x \<in> set (map tenant_threshold.label (take (Suc i) ts))) xs))"
    by (rule sum_count_list_distinct [OF d])
  finally have eq: "cumulative_count xs ts i =
      int (length (filter (\<lambda>x. x \<in> set (map tenant_threshold.label (take (Suc i) ts))) xs))" .
  show "0 \<le> cumulative_count xs ts i" unfolding eq by simp
  show "cumulative_count xs ts i \<le> int (length xs)" unfolding eq by simp
qed

lemma percentage_of_mono:
  assumes "0 \<le> c" and "c \<le> int n" and "0 < n"
  shows "percentage_of c n \<le> percentage_of (c + 1) (Suc n)"
proof -
  have n: "(0::rat) < of_int (int n)" using assms(3) by simp
  have "(of_int c :: rat) * of_int (int (Suc n)) \<le> of_int (c + 1) * of_int (int n)"
  proof -
    have "c * int (Suc n) \<le> (c + 1) * int n" using assms(2) by (simp add: algebra_simps)
    then have "(of_int (c * int (Suc n)) :: rat) \<le> of_int ((c + 1) * int n)"
      by (simp only: of_int_le_iff)
    then show ?thesis by (simp only: of_int_mult)
  qed
  then have q: "(of_int c :: rat) / of_int (int n) \<le> of_int (c + 1) / of_int (int (Suc n))"
    using n by (simp add: frac_le_eq divide_simps mult.commute) 
  have q0: "(0::rat) \<le> of_int c / of_int (int n)" using assms(1) n by simp
  have r: "float_round (of_int c / of_int (int n)) \<le> float_round (of_int (c + 1) / of_int (int (Suc n)))"
    by (rule float_round_mono [OF q0 q])
  have r0: "0 \<le> float_round (of_int c / of_int (int n))"
    by (rule float_round_nonneg [OF q0])
  have "float_round (float_round (of_int c / of_int (int n)) * 100) \<le>
        float_round (float_round (of_int (c + 1) / of_int (int (Suc n))) * 100)"
    using r r0 by (intro float_round_mono) simp_all
  then show ?thesis by (simp add: percentage_of_def float_mul_def)
qed

lemma threshold_reached_added_label:
  assumes d: "distinct (map tenant_threshold.label ts)"
      and "ts \<noteq> []" and "tenant_threshold.label (hd ts) = a" and "i < length ts"
      and ne: "xs @ ys \<noteq> []"
      and reached: "threshold_reached (xs @ ys) ts i"
  shows "threshold_reached (xs @ a # ys) ts i"
proof -
  have "percentage_of (cumulative_count (xs @ ys) ts i) (length (xs @ ys)) \<le>
        percentage_of (cumulative_count (xs @ ys) ts i + 1) (Suc (length (xs @ ys)))"
    using cumulative_count_bounds [OF d, of "xs @ ys" i] ne
    by (intro percentage_of_mono) simp_all
  with reached show ?thesis
    by (simp add: threshold_reached_def cumulative_count_added_label [OF assms(1-4)])
qed

section \<open>Classification of one entity\<close>




text \<open>
  It also fails on an empty findings input: the frame has no column, the \<open>KeyError\<close>
  branch returns \<open>A\<close> and the table is never consulted, even when no rule admits the
  counts \<open>0, 0, 0\<close>.
\<close>

lemma no_rule_matches_empty_findings:
  "Subscription_get_energy_label
     \<lparr>subscription_id = ''s1'', display_name = ''one'',
      subscription_thresholds = [\<lparr>threshold.label = ''A'', high = -1, medium = -1, low = -1\<rparr>],
      energy_label = None\<rparr>
     (Findings [])
   = Inr (mk_label ResourceGroupEnergyLabel ''A'' 0 0 0,
          \<lparr>subscription_id = ''s1'', display_name = ''one'',
           subscription_thresholds = [\<lparr>threshold.label = ''A'', high = -1, medium = -1, low = -1\<rparr>],
           energy_label = Some (mk_label ResourceGroupEnergyLabel ''A'' 0 0 0)\<rparr>)"
  by (simp add: Subscription_get_energy_label_def as_dataframe_def pd_DataFrame_def
      getitem_column_def Let_def)






text \<open>
  C5. The handler \<open>except Exception\<close> logs that the default \<open>F\<close> is used and assigns
  nothing. On a frame with the identifier column and no severity column the
  \<open>KeyError\<close> is caught, and the \<open>return\<close> after the handler reads an attribute that
  was never set: \<open>AttributeError\<close> reaches the caller.
\<close>

theorem missing_severity_column_raises:
  "Subscription_get_energy_label
     \<lparr>subscription_id = ''s1'', display_name = ''one'',
      subscription_thresholds = [\<lparr>threshold.label = ''A'', high = 0, medium = 0, low = 0\<rparr>],
      energy_label = None\<rparr>
     (Frame \<lparr>columns = [''Subscription ID''], rows = [[(''Subscription ID'', ''s1'')]]\<rparr>)
   = Inl AttributeError"
  by (simp add: Subscription_get_energy_label_def as_dataframe_def getitem_column_def
      label_block_def number_of_findings_def getitem_mask_def series_eq_def)

text \<open>
  When an earlier call has set the attribute, the same input returns the old label, not
  \<open>F\<close>.
\<close>

lemma missing_severity_column_keeps_old_label:
  "Subscription_get_energy_label
     \<lparr>subscription_id = ''s1'', display_name = ''one'',
      subscription_thresholds = [\<lparr>threshold.label = ''A'', high = 0, medium = 0, low = 0\<rparr>],
      energy_label = Some (mk_label SubscriptionEnergyLabel ''A'' 0 0 0)\<rparr>
     (Frame \<lparr>columns = [''Subscription ID''], rows = [[(''Subscription ID'', ''s1'')]]\<rparr>)
   = Inr (mk_label SubscriptionEnergyLabel ''A'' 0 0 0,
          \<lparr>subscription_id = ''s1'', display_name = ''one'',
           subscription_thresholds = [\<lparr>threshold.label = ''A'', high = 0, medium = 0, low = 0\<rparr>],
           energy_label = Some (mk_label SubscriptionEnergyLabel ''A'' 0 0 0)\<rparr>)"
  by (simp add: Subscription_get_energy_label_def as_dataframe_def getitem_column_def
      label_block_def number_of_findings_def getitem_mask_def series_eq_def)




lemma columns_findings_empty: "columns (as_dataframe (Findings [])) = []"
  by (simp add: as_dataframe_def pd_DataFrame_def)




section \<open>Equality of findings\<close>

text \<open>
  C10. \<open>Finding.__eq__\<close> compares \<open>hash(self)\<close> with \<open>hash(other)\<close>, and the class,
  defining \<open>__eq__\<close> without \<open>__hash__\<close>, is unhashable: comparing two findings built
  from the same raw data raises \<open>TypeError\<close>.
\<close>

theorem finding_eq_raises:
  "Finding_eq (Finding [(''severity'', ''High'')]) (FindingObject (Finding [(''severity'', ''High'')]))
     = Inl TypeError"
  by (simp add: Finding_eq_def Finding_hash_def)

section \<open>Aggregation over the labeled subscriptions\<close>

text \<open>
  C2, as stated, fails on the running count. Each rule adds the number of subscriptions
  that carry exactly its label, so a subscription whose label is better than every
  label of the table is never counted. With the single rule \<open>B\<close> at 100 percent and
  one subscription labeled \<open>A\<close>, the subscription is at-or-better than \<open>B\<close> and
  \<open>1 / 1 * 100\<close> reaches 100, yet the running count is 0 and the result is \<open>F\<close>.
\<close>

theorem aggregate_label_counterexample:
  "get_energy_label_of_targeted_subscriptions
     \<lparr>tenant_id = ''t'', thresholds = [\<lparr>tenant_threshold.label = ''B'', percentage = 100\<rparr>],
        subscription_thresholds = [], resource_group_thresholds = [],
        subscriptions =
          [\<lparr>subscription_id = ''s1'', display_name = ''one'',
           subscription_thresholds =
             [\<lparr>threshold.label = ''A'', high = 0, medium = 0, low = 0\<rparr>,
              \<lparr>threshold.label = ''B'', high = 5, medium = 5, low = 5\<rparr>],
           energy_label = None\<rparr>],
        allowed_subscription_ids = [], denied_subscription_ids = [],
        subscriptions_to_be_labeled_cache = None,
        targeted_subscriptions_energy_label = None\<rparr>
     []
   = Inr (\<lparr>AggregateSubscriptionEnergyLabel.label = ''F'', best_label = ''A'',
           worst_label = ''A'', number_of_subscriptions = 1\<rparr>,
          \<lparr>tenant_id = ''t'', thresholds = [\<lparr>tenant_threshold.label = ''B'', percentage = 100\<rparr>],
        subscription_thresholds = [], resource_group_thresholds = [],
        subscriptions =
          [\<lparr>subscription_id = ''s1'', display_name = ''one'',
           subscription_thresholds =
             [\<lparr>threshold.label = ''A'', high = 0, medium = 0, low = 0\<rparr>,
              \<lparr>threshold.label = ''B'', high = 5, medium = 5, low = 5\<rparr>],
           energy_label = None\<rparr>],
        allowed_subscription_ids = [], denied_subscription_ids = [],
        subscriptions_to_be_labeled_cache = Some
          [\<lparr>subscription_id = ''s1'', display_name = ''one'',
           subscription_thresholds =
             [\<lparr>threshold.label = ''A'', high = 0, medium = 0, low = 0\<rparr>,
              \<lparr>threshold.label = ''B'', high = 5, medium = 5, low = 5\<rparr>],
           energy_label = Some (mk_label ResourceGroupEnergyLabel ''A'' 0 0 0)\<rparr>],
        targeted_subscriptions_energy_label = Some \<lparr>AggregateSubscriptionEnergyLabel.label = ''F'', best_label = ''A'',
                 worst_label = ''A'', number_of_subscriptions = 1\<rparr>\<rparr>)
   \<and> ''A'' \<le> ''B'' \<and> 100 \<le> percentage_of 1 1"
proof -
  have "percentage_of 0 1 = 0" by code_simp
  moreover have "percentage_of 1 1 = 100" by code_simp
  ultimately show ?thesis
    by (simp add: get_energy_label_of_targeted_subscriptions_def
        get_labeled_targeted_subscriptions_def subscriptions_to_be_labeled_def
        Subscription_get_energy_label_def as_dataframe_def pd_DataFrame_def
        getitem_column_def aggregate_energy_label_def mk_label_def min_key_def max_key_def
        true_divide_def float_mul_def percentage_of_def Let_def)
qed

text \<open>
  C2, amended. For a non-empty population of labeled subscriptions and any table of
  rules, \<open>get_energy_label_of_targeted_subscriptions\<close> (with nothing cached) walks the
  rules in table order, keeping the running total of the numbers of subscriptions that
  carry exactly the label of a rule walked so far. It returns the label of the first
  rule for which \<open>total / population * 100 >= percentage\<close>, so the earlier of two
  rules that both reach their percentage wins; if no rule reaches its percentage it
  returns \<open>F\<close>. The best and worst labels present and the population size come with
  the label, and the result is cached. The running total at a rule is the number of
  subscriptions at-or-better than the rule's label when the labels of the table are
  strictly increasing and every label of the population up to the rule's label is in
  the table.
\<close>

theorem aggregate_label_is_first_reached_rule:
  assumes "targeted_subscriptions_energy_label tenant = None"
      and "get_labeled_targeted_subscriptions tenant findings = Inr (labeled, tenant')"
      and "labeled \<noteq> []"
      and "ls = subscription_labels labeled"
  shows
    "(i < length (thresholds tenant) \<and> threshold_reached ls (thresholds tenant) i \<and>
      (\<forall>j<i. \<not> threshold_reached ls (thresholds tenant) j)
        \<longrightarrow> get_energy_label_of_targeted_subscriptions tenant findings =
              Inr (\<lparr>AggregateSubscriptionEnergyLabel.label =
                       tenant_threshold.label (thresholds tenant ! i),
                    best_label = Min (set ls), worst_label = Max (set ls),
                    number_of_subscriptions = length labeled\<rparr>,
                   tenant'\<lparr>targeted_subscriptions_energy_label :=
                     Some \<lparr>AggregateSubscriptionEnergyLabel.label =
                             tenant_threshold.label (thresholds tenant ! i),
                           best_label = Min (set ls), worst_label = Max (set ls),
                           number_of_subscriptions = length labeled\<rparr>\<rparr>))
     \<and>
     ((\<forall>j<length (thresholds tenant). \<not> threshold_reached ls (thresholds tenant) j)
        \<longrightarrow> get_energy_label_of_targeted_subscriptions tenant findings =
              Inr (\<lparr>AggregateSubscriptionEnergyLabel.label = ''F'',
                    best_label = Min (set ls), worst_label = Max (set ls),
                    number_of_subscriptions = length labeled\<rparr>,
                   tenant'\<lparr>targeted_subscriptions_energy_label :=
                     Some \<lparr>AggregateSubscriptionEnergyLabel.label = ''F'',
                           best_label = Min (set ls), worst_label = Max (set ls),
                           number_of_subscriptions = length labeled\<rparr>\<rparr>))
     \<and>
     (k < length (thresholds tenant) \<and>
      sorted_wrt (<) (map tenant_threshold.label (thresholds tenant)) \<and>
      (\<forall>x\<in>set ls. x \<le> tenant_threshold.label (thresholds tenant ! k) \<longrightarrow>
                   x \<in> tenant_threshold.label ` set (thresholds tenant))
        \<longrightarrow> cumulative_count ls (thresholds tenant) k =
              int (length (filter (\<lambda>x. x \<le> tenant_threshold.label (thresholds tenant ! k)) ls)))"
proof (intro conjI impI, goal_cases)
  case 1
  note all = get_labeled_targeted_subscriptions_labeled(2) [OF assms(2)]
  have "aggregate_energy_label (thresholds tenant) labeled =
          Inr \<lparr>AggregateSubscriptionEnergyLabel.label =
                 tenant_threshold.label (thresholds tenant ! i),
               best_label = Min (set (subscription_labels labeled)),
               worst_label = Max (set (subscription_labels labeled)),
               number_of_subscriptions = length labeled\<rparr>"
    by (rule aggregate_energy_label_first [OF assms(3) all]) (use 1 assms(4) in auto)
  with assms(4) show ?case
    by (simp add: get_energy_label_of_targeted_subscriptions_uncached [OF assms(1,2)])
next
  case 2
  note all = get_labeled_targeted_subscriptions_labeled(2) [OF assms(2)]
  have "aggregate_energy_label (thresholds tenant) labeled =
          Inr \<lparr>AggregateSubscriptionEnergyLabel.label = ''F'',
               best_label = Min (set (subscription_labels labeled)),
               worst_label = Max (set (subscription_labels labeled)),
               number_of_subscriptions = length labeled\<rparr>"
    by (rule aggregate_energy_label_none [OF assms(3) all]) (use 2 assms(4) in auto)
  with assms(4) show ?case
    by (simp add: get_energy_label_of_targeted_subscriptions_uncached [OF assms(1,2)])
next
  case 3
  then show ?case by (intro cumulative_count_at_or_better) simp_all
qed

theorem aggregate_label_is_first_reached_rule_witness:
  "(\<exists>t'. get_energy_label_of_targeted_subscriptions
       \<lparr>tenant_id = ''t'', thresholds = [\<lparr>tenant_threshold.label = ''A'', percentage = 90\<rparr>, \<lparr>tenant_threshold.label = ''B'', percentage = 50\<rparr>],
        subscription_thresholds = [], resource_group_thresholds = [],
        subscriptions =
          [\<lparr>subscription_id = ''s1'', display_name = ''one'',
           subscription_thresholds =
             [\<lparr>threshold.label = ''A'', high = 0, medium = 0, low = 0\<rparr>,
              \<lparr>threshold.label = ''B'', high = 5, medium = 5, low = 5\<rparr>],
           energy_label = None\<rparr>,
          \<lparr>subscription_id = ''s2'', display_name = ''two'',
           subscription_thresholds =
             [\<lparr>threshold.label = ''A'', high = 0, medium = 0, low = 0\<rparr>,
              \<lparr>threshold.label = ''B'', high = 5, medium = 5, low = 5\<rparr>],
           energy_label = None\<rparr>],
        allowed_subscription_ids = [], denied_subscription_ids = [],
        subscriptions_to_be_labeled_cache = None,
        targeted_subscriptions_energy_label = None\<rparr>
       [Finding [(''subscriptionId'', ''s1''), (''resourceGroup'', ''rg1''), (''severity'', ''High'')]]
     = Inr (\<lparr>AggregateSubscriptionEnergyLabel.label = ''B'', best_label = ''A'',
             worst_label = ''B'', number_of_subscriptions = 2\<rparr>, t'))
   \<and>
   (\<exists>t'. get_energy_label_of_targeted_subscriptions
       \<lparr>tenant_id = ''t'', thresholds = [\<lparr>tenant_threshold.label = ''A'', percentage = 90\<rparr>],
        subscription_thresholds = [], resource_group_thresholds = [],
        subscriptions =
          [\<lparr>subscription_id = ''s1'', display_name = ''one'',
           subscription_thresholds =
             [\<lparr>threshold.label = ''A'', high = 0, medium = 0, low = 0\<rparr>,
              \<lparr>threshold.label = ''B'', high = 5, medium = 5, low = 5\<rparr>],
           energy_label = None\<rparr>,
          \<lparr>subscription_id = ''s2'', display_name = ''two'',
           subscription_thresholds =
             [\<lparr>threshold.label = ''A'', high = 0, medium = 0, low = 0\<rparr>,
              \<lparr>threshold.label = ''B'', high = 5, medium = 5, low = 5\<rparr>],
           energy_label = None\<rparr>],
        allowed_subscription_ids = [], denied_subscription_ids = [],
        subscriptions_to_be_labeled_cache = None,
        targeted_subscriptions_energy_label = None\<rparr>
       [Finding [(''subscriptionId'', ''s1''), (''resourceGroup'', ''rg1''), (''severity'', ''High'')]]
     = Inr (\<lparr>AggregateSubscriptionEnergyLabel.label = ''F'', best_label = ''A'',
             worst_label = ''B'', number_of_subscriptions = 2\<rparr>, t'))
   \<and> cumulative_count [''B'', ''A''] [\<lparr>tenant_threshold.label = ''A'', percentage = 90\<rparr>, \<lparr>tenant_threshold.label = ''B'', percentage = 50\<rparr>] 1 = 2"
proof -
  have lab: "get_labeled_targeted_subscriptions
       \<lparr>tenant_id = ''t'', thresholds = ths,
        subscription_thresholds = [], resource_group_thresholds = [],
        subscriptions =
          [\<lparr>subscription_id = ''s1'', display_name = ''one'',
           subscription_thresholds =
             [\<lparr>threshold.label = ''A'', high = 0, medium = 0, low = 0\<rparr>,
              \<lparr>threshold.label = ''B'', high = 5, medium = 5, low = 5\<rparr>],
           energy_label = None\<rparr>,
          \<lparr>subscription_id = ''s2'', display_name = ''two'',
           subscription_thresholds =
             [\<lparr>threshold.label = ''A'', high = 0, medium = 0, low = 0\<rparr>,
              \<lparr>threshold.label = ''B'', high = 5, medium = 5, low = 5\<rparr>],
           energy_label = None\<rparr>],
        allowed_subscription_ids = [], denied_subscription_ids = [],
        subscriptions_to_be_labeled_cache = None,
        targeted_subscriptions_energy_label = None\<rparr>
       [Finding [(''subscriptionId'', ''s1''), (''resourceGroup'', ''rg1''), (''severity'', ''High'')]]
     = Inr ([\<lparr>subscription_id = ''s1'', display_name = ''one'',
           subscription_thresholds =
             [\<lparr>threshold.label = ''A'', high = 0, medium = 0, low = 0\<rparr>,
              \<lparr>threshold.label = ''B'', high = 5, medium = 5, low = 5\<rparr>],
           energy_label = Some (mk_label SubscriptionEnergyLabel ''B'' 1 0 0)\<rparr>,
          \<lparr>subscription_id = ''s2'', display_name = ''two'',
           subscription_thresholds =
             [\<lparr>threshold.label = ''A'', high = 0, medium = 0, low = 0\<rparr>,
              \<lparr>threshold.label = ''B'', high = 5, medium = 5, low = 5\<rparr>],
           energy_label = Some (mk_label SubscriptionEnergyLabel ''A'' 0 0 0)\<rparr>],
       \<lparr>tenant_id = ''t'', thresholds = ths,
        subscription_thresholds = [], resource_group_thresholds = [],
        subscriptions =
          [\<lparr>subscription_id = ''s1'', display_name = ''one'',
           subscription_thresholds =
             [\<lparr>threshold.label = ''A'', high = 0, medium = 0, low = 0\<rparr>,
              \<lparr>threshold.label = ''B'', high = 5, medium = 5, low = 5\<rparr>],
           energy_label = None\<rparr>,
          \<lparr>subscription_id = ''s2'', display_name = ''two'',
           subscription_thresholds =
             [\<lparr>threshold.label = ''A'', high = 0, medium = 0, low = 0\<rparr>,
              \<lparr>threshold.label = ''B'', high = 5, medium = 5, low = 5\<rparr>],
           energy_label = None\<rparr>],
        allowed_subscription_ids = [], denied_subscription_ids = [],
        subscriptions_to_be_labeled_cache = Some
          [\<lparr>subscription_id = ''s1'', display_name = ''one'',
           subscription_thresholds =
             [\<lparr>threshold.label = ''A'', high = 0, medium = 0, low = 0\<rparr>,
              \<lparr>threshold.label = ''B'', high = 5, medium = 5, low = 5\<rparr>],
           energy_label = Some (mk_label SubscriptionEnergyLabel ''B'' 1 0 0)\<rparr>,
          \<lparr>subscription_id = ''s2'', display_name = ''two'',
           subscription_thresholds =
             [\<lparr>threshold.label = ''A'', high = 0, medium = 0, low = 0\<rparr>,
              \<lparr>threshold.label = ''B'', high = 5, medium = 5, low = 5\<rparr>],
           energy_label = Some (mk_label SubscriptionEnergyLabel ''A'' 0 0 0)\<rparr>],
        targeted_subscriptions_energy_label = None\<rparr>)" for ths
    by (simp add: get_labeled_targeted_subscriptions_def subscriptions_to_be_labeled_def
        Subscription_get_energy_label_def as_dataframe_def pd_DataFrame_def
        measurement_data_def getitem_column_def label_block_def number_of_findings_def
        getitem_mask_def series_eq_def Finding_subscription_id_def Finding_resource_group_def
        Finding_severity_def dict_get_def rule_matches_def Let_def)
  have ls: "subscription_labels
          [\<lparr>subscription_id = ''s1'', display_name = ''one'',
           subscription_thresholds =
             [\<lparr>threshold.label = ''A'', high = 0, medium = 0, low = 0\<rparr>,
              \<lparr>threshold.label = ''B'', high = 5, medium = 5, low = 5\<rparr>],
           energy_label = Some (mk_label SubscriptionEnergyLabel ''B'' 1 0 0)\<rparr>,
          \<lparr>subscription_id = ''s2'', display_name = ''two'',
           subscription_thresholds =
             [\<lparr>threshold.label = ''A'', high = 0, medium = 0, low = 0\<rparr>,
              \<lparr>threshold.label = ''B'', high = 5, medium = 5, low = 5\<rparr>],
           energy_label = Some (mk_label SubscriptionEnergyLabel ''A'' 0 0 0)\<rparr>] = [''B'', ''A'']"
    by (simp add: subscription_labels_def List.map_filter_simps mk_label_def)
  have r1: "threshold_reached [''B'', ''A''] [\<lparr>tenant_threshold.label = ''A'', percentage = 90\<rparr>, \<lparr>tenant_threshold.label = ''B'', percentage = 50\<rparr>] 1"
    by code_simp
  have r0: "\<not> threshold_reached [''B'', ''A''] [\<lparr>tenant_threshold.label = ''A'', percentage = 90\<rparr>, \<lparr>tenant_threshold.label = ''B'', percentage = 50\<rparr>] 0"
    by code_simp
  have r3: "\<not> threshold_reached [''B'', ''A''] [\<lparr>tenant_threshold.label = ''A'', percentage = 90\<rparr>] 0"
    by code_simp
  from aggregate_label_is_first_reached_rule
         [OF _ lab [of "[\<lparr>tenant_threshold.label = ''A'', percentage = 90\<rparr>, \<lparr>tenant_threshold.label = ''B'', percentage = 50\<rparr>]"] _ ls [symmetric], where i = 1 and k = 1]
       aggregate_label_is_first_reached_rule
         [OF _ lab [of "[\<lparr>tenant_threshold.label = ''A'', percentage = 90\<rparr>]"] _ ls [symmetric], where i = 0 and k = 0]
       r1 r0 r3
  show ?thesis by simp
qed

text \<open>
  C6, as stated, fails: nothing guards the division by the number of subscriptions,
  and no exception for an empty population exists. A tenant without subscriptions
  gets the arithmetic exception itself.
\<close>

theorem empty_population_counterexample:
  "get_energy_label_of_targeted_subscriptions
     \<lparr>tenant_id = ''t'', thresholds = [\<lparr>tenant_threshold.label = ''A'', percentage = 90\<rparr>],
        subscription_thresholds = [], resource_group_thresholds = [],
        subscriptions =
          [],
        allowed_subscription_ids = [], denied_subscription_ids = [],
        subscriptions_to_be_labeled_cache = None,
        targeted_subscriptions_energy_label = None\<rparr>
     []
   = Inl ZeroDivisionError"
  by (simp add: get_energy_label_of_targeted_subscriptions_def
      get_labeled_targeted_subscriptions_def subscriptions_to_be_labeled_def
      aggregate_energy_label_def true_divide_def Let_def)

text \<open>
  C6, amended. When the population of labeled subscriptions is empty (and nothing is
  cached), \<open>get_energy_label_of_targeted_subscriptions\<close> raises \<open>ZeroDivisionError\<close>
  to the caller at the first rule of the table; with an empty table it raises
  \<open>ValueError\<close>, from the minimum of no labels. No label is returned.
\<close>

theorem empty_population_raises:
  assumes "targeted_subscriptions_energy_label tenant = None"
      and "get_labeled_targeted_subscriptions tenant findings = Inr ([], tenant')"
  shows "(thresholds tenant \<noteq> [] \<longrightarrow>
            get_energy_label_of_targeted_subscriptions tenant findings = Inl ZeroDivisionError)
       \<and> (thresholds tenant = [] \<longrightarrow>
            get_energy_label_of_targeted_subscriptions tenant findings = Inl ValueError)"
  by (simp add: get_energy_label_of_targeted_subscriptions_uncached [OF assms]
      aggregate_energy_label_def tenant_threshold_loop_zero min_key_def)

theorem empty_population_raises_witness:
  "get_energy_label_of_targeted_subscriptions
     \<lparr>tenant_id = ''t'', thresholds = [\<lparr>tenant_threshold.label = ''A'', percentage = 90\<rparr>],
        subscription_thresholds = [], resource_group_thresholds = [],
        subscriptions =
          [],
        allowed_subscription_ids = [], denied_subscription_ids = [],
        subscriptions_to_be_labeled_cache = None,
        targeted_subscriptions_energy_label = None\<rparr>
     [Finding [(''subscriptionId'', ''s1''), (''resourceGroup'', ''rg1''), (''severity'', ''High'')]]
   = Inl ZeroDivisionError
   \<and>
   get_energy_label_of_targeted_subscriptions
     \<lparr>tenant_id = ''t'', thresholds = [],
        subscription_thresholds = [], resource_group_thresholds = [],
        subscriptions =
          [],
        allowed_subscription_ids = [], denied_subscription_ids = [],
        subscriptions_to_be_labeled_cache = None,
        targeted_subscriptions_energy_label = None\<rparr>
     [Finding [(''subscriptionId'', ''s1''), (''resourceGroup'', ''rg1''), (''severity'', ''High'')]]
   = Inl ValueError"
proof -
  have lab: "get_labeled_targeted_subscriptions
       \<lparr>tenant_id = ''t'', thresholds = ths,
        subscription_thresholds = [], resource_group_thresholds = [],
        subscriptions =
          [],
        allowed_subscription_ids = [], denied_subscription_ids = [],
        subscriptions_to_be_labeled_cache = None,
        targeted_subscriptions_energy_label = None\<rparr>
       [Finding [(''subscriptionId'', ''s1''), (''resourceGroup'', ''rg1''), (''severity'', ''High'')]]
     = Inr ([],
       \<lparr>tenant_id = ''t'', thresholds = ths,
        subscription_thresholds = [], resource_group_thresholds = [],
        subscriptions =
          [],
        allowed_subscription_ids = [], denied_subscription_ids = [],
        subscriptions_to_be_labeled_cache = Some [],
        targeted_subscriptions_energy_label = None\<rparr>)" for ths
    by (simp add: get_labeled_targeted_subscriptions_def subscriptions_to_be_labeled_def
        Subscription_get_energy_label_def as_dataframe_def pd_DataFrame_def
        measurement_data_def getitem_column_def label_block_def number_of_findings_def
        getitem_mask_def series_eq_def Finding_subscription_id_def Finding_resource_group_def
        Finding_severity_def dict_get_def rule_matches_def Let_def)
  from empty_population_raises [OF _ lab [of "[\<lparr>tenant_threshold.label = ''A'', percentage = 90\<rparr>]"]]
       empty_population_raises [OF _ lab [of "[]"]]
  show ?thesis by simp
qed

section \<open>Validation of the allow and deny lists\<close>

text \<open>
  C7. \<open>Tenant.__init__\<close> checks the allow list and then the deny list, as
  \<open>validate_allowed_denied_subscription_ids\<close> returned them, against the ids of the
  tenant's subscriptions. A list with an id that is not among them makes the
  construction raise \<open>SubscriptionNotPartOfTenant\<close> with the offending ids; no tenant
  is built, and the construction takes no findings, so none has been processed. When
  every listed id belongs to the tenant, both lists are stored unchanged.
\<close>

theorem tenant_init_validates_ids:
  assumes "validate_allowed_denied_subscription_ids allowed denied = Inr (a, d)"
      and "ids = map Subscription.subscription_id listing"
  shows
    "(\<not> set a \<subseteq> set ids \<longrightarrow>
        Tenant_init validate_allowed_denied_subscription_ids listing tid ths sub_ths rg_ths
          allowed denied = Inl (SubscriptionNotPartOfTenant (set a - set ids)))
     \<and>
     (set a \<subseteq> set ids \<and> \<not> set d \<subseteq> set ids \<longrightarrow>
        Tenant_init validate_allowed_denied_subscription_ids listing tid ths sub_ths rg_ths
          allowed denied = Inl (SubscriptionNotPartOfTenant (set d - set ids)))
     \<and>
     (set a \<subseteq> set ids \<and> set d \<subseteq> set ids \<longrightarrow>
        Tenant_init validate_allowed_denied_subscription_ids listing tid ths sub_ths rg_ths
          allowed denied =
          Inr \<lparr>tenant_id = tid, thresholds = ths, subscription_thresholds = sub_ths,
               resource_group_thresholds = rg_ths, subscriptions = listing,
               allowed_subscription_ids = a, denied_subscription_ids = d,
               subscriptions_to_be_labeled_cache = None,
               targeted_subscriptions_energy_label = None\<rparr>)
     \<and>
     validate_tenant_subscription_ids a ids =
       (if set a \<subseteq> set ids then Inr a
        else Inl (SubscriptionNotPartOfTenant (set a - set ids)))"
  using assms
  by (auto simp: Tenant_init_def validate_tenant_subscription_ids_def Let_def)

theorem tenant_init_validates_ids_witness:
  "Tenant_init (\<lambda>a d. Inr (a, d))
     [\<lparr>subscription_id = ''s1'', display_name = ''one'',
           subscription_thresholds =
             [\<lparr>threshold.label = ''A'', high = 0, medium = 0, low = 0\<rparr>,
              \<lparr>threshold.label = ''B'', high = 5, medium = 5, low = 5\<rparr>],
           energy_label = None\<rparr>,
      \<lparr>subscription_id = ''s2'', display_name = ''two'',
           subscription_thresholds =
             [\<lparr>threshold.label = ''A'', high = 0, medium = 0, low = 0\<rparr>,
              \<lparr>threshold.label = ''B'', high = 5, medium = 5, low = 5\<rparr>],
           energy_label = None\<rparr>]
     ''t'' [] [] [] [''s1'', ''s3''] []
   = Inl (SubscriptionNotPartOfTenant {''s3''})
   \<and>
   Tenant_init (\<lambda>a d. Inr (a, d))
     [\<lparr>subscription_id = ''s1'', display_name = ''one'',
           subscription_thresholds =
             [\<lparr>threshold.label = ''A'', high = 0, medium = 0, low = 0\<rparr>,
              \<lparr>threshold.label = ''B'', high = 5, medium = 5, low = 5\<rparr>],
           energy_label = None\<rparr>,
      \<lparr>subscription_id = ''s2'', display_name = ''two'',
           subscription_thresholds =
             [\<lparr>threshold.label = ''A'', high = 0, medium = 0, low = 0\<rparr>,
              \<lparr>threshold.label = ''B'', high = 5, medium = 5, low = 5\<rparr>],
           energy_label = None\<rparr>]
     ''t'' [] [] [] [] [''s2'', ''s4'']
   = Inl (SubscriptionNotPartOfTenant {''s4''})
   \<and>
   Tenant_init (\<lambda>a d. Inr (a, d))
     [\<lparr>subscription_id = ''s1'', display_name = ''one'',
           subscription_thresholds =
             [\<lparr>threshold.label = ''A'', high = 0, medium = 0, low = 0\<rparr>,
              \<lparr>threshold.label = ''B'', high = 5, medium = 5, low = 5\<rparr>],
           energy_label = None\<rparr>,
      \<lparr>subscription_id = ''s2'', display_name = ''two'',
           subscription_thresholds =
             [\<lparr>threshold.label = ''A'', high = 0, medium = 0, low = 0\<rparr>,
              \<lparr>threshold.label = ''B'', high = 5, medium = 5, low = 5\<rparr>],
           energy_label = None\<rparr>]
     ''t'' [] [] [] [''s2''] []
   = Inr \<lparr>tenant_id = ''t'', thresholds = [], subscription_thresholds = [],
          resource_group_thresholds = [],
          subscriptions =
            [\<lparr>subscription_id = ''s1'', display_name = ''one'',
           subscription_thresholds =
             [\<lparr>threshold.label = ''A'', high = 0, medium = 0, low = 0\<rparr>,
              \<lparr>threshold.label = ''B'', high = 5, medium = 5, low = 5\<rparr>],
           energy_label = None\<rparr>,
             \<lparr>subscription_id = ''s2'', display_name = ''two'',
           subscription_thresholds =
             [\<lparr>threshold.label = ''A'', high = 0, medium = 0, low = 0\<rparr>,
              \<lparr>threshold.label = ''B'', high = 5, medium = 5, low = 5\<rparr>],
           energy_label = None\<rparr>],
          allowed_subscription_ids = [''s2''], denied_subscription_ids = [],
          subscriptions_to_be_labeled_cache = None,
          targeted_subscriptions_energy_label = None\<rparr>"
  using tenant_init_validates_ids
          [where validate_allowed_denied_subscription_ids = "\<lambda>a d. Inr (a, d)"
             and allowed = "[''s1'', ''s3'']" and denied = "[]"
             and a = "[''s1'', ''s3'']" and d = "[]" and ids = "[''s1'', ''s2'']"
             and tid = "''t''" and ths = "[]" and sub_ths = "[]" and rg_ths = "[]"
             and listing = "[\<lparr>subscription_id = ''s1'', display_name = ''one'',
           subscription_thresholds =
             [\<lparr>threshold.label = ''A'', high = 0, medium = 0, low = 0\<rparr>,
              \<lparr>threshold.label = ''B'', high = 5, medium = 5, low = 5\<rparr>],
           energy_label = None\<rparr>,
      \<lparr>subscription_id = ''s2'', display_name = ''two'',
           subscription_thresholds =
             [\<lparr>threshold.label = ''A'', high = 0, medium = 0, low = 0\<rparr>,
              \<lparr>threshold.label = ''B'', high = 5, medium = 5, low = 5\<rparr>],
           energy_label = None\<rparr>]"]
        tenant_init_validates_ids
          [where validate_allowed_denied_subscription_ids = "\<lambda>a d. Inr (a, d)"
             and allowed = "[]" and denied = "[''s2'', ''s4'']"
             and a = "[]" and d = "[''s2'', ''s4'']" and ids = "[''s1'', ''s2'']"
             and tid = "''t''" and ths = "[]" and sub_ths = "[]" and rg_ths = "[]"
             and listing = "[\<lparr>subscription_id = ''s1'', display_name = ''one'',
           subscription_thresholds =
             [\<lparr>threshold.label = ''A'', high = 0, medium = 0, low = 0\<rparr>,
              \<lparr>threshold.label = ''B'', high = 5, medium = 5, low = 5\<rparr>],
           energy_label = None\<rparr>,
      \<lparr>subscription_id = ''s2'', display_name = ''two'',
           subscription_thresholds =
             [\<lparr>threshold.label = ''A'', high = 0, medium = 0, low = 0\<rparr>,
              \<lparr>threshold.label = ''B'', high = 5, medium = 5, low = 5\<rparr>],
           energy_label = None\<rparr>]"]
        tenant_init_validates_ids
          [where validate_allowed_denied_subscription_ids = "\<lambda>a d. Inr (a, d)"
             and allowed = "[''s2'']" and denied = "[]"
             and a = "[''s2'']" and d = "[]" and ids = "[''s1'', ''s2'']"
             and tid = "''t''" and ths = "[]" and sub_ths = "[]" and rg_ths = "[]"
             and listing = "[\<lparr>subscription_id = ''s1'', display_name = ''one'',
           subscription_thresholds =
             [\<lparr>threshold.label = ''A'', high = 0, medium = 0, low = 0\<rparr>,
              \<lparr>threshold.label = ''B'', high = 5, medium = 5, low = 5\<rparr>],
           energy_label = None\<rparr>,
      \<lparr>subscription_id = ''s2'', display_name = ''two'',
           subscription_thresholds =
             [\<lparr>threshold.label = ''A'', high = 0, medium = 0, low = 0\<rparr>,
              \<lparr>threshold.label = ''B'', high = 5, medium = 5, low = 5\<rparr>],
           energy_label = None\<rparr>]"]
  by (simp add: insert_Diff_if)

text \<open>
  C8, as stated, fails for a table that has no rule for the label \<open>A\<close>: the added
  subscription raises the population and no running total. With the single rule \<open>B\<close>
  at 100 percent, one subscription labeled \<open>B\<close> gives \<open>B\<close>; adding a subscription
  labeled \<open>A\<close> gives \<open>1 / 2 * 100 = 50\<close> and the result \<open>F\<close>.
\<close>

theorem adding_best_label_counterexample:
  "aggregate_energy_label [\<lparr>tenant_threshold.label = ''B'', percentage = 100\<rparr>]
     [\<lparr>subscription_id = ''s1'', display_name = ''one'',
           subscription_thresholds =
             [\<lparr>threshold.label = ''A'', high = 0, medium = 0, low = 0\<rparr>,
              \<lparr>threshold.label = ''B'', high = 5, medium = 5, low = 5\<rparr>],
           energy_label = Some (mk_label SubscriptionEnergyLabel ''B'' 1 0 0)\<rparr>]
   = Inr \<lparr>AggregateSubscriptionEnergyLabel.label = ''B'', best_label = ''B'',
          worst_label = ''B'', number_of_subscriptions = 1\<rparr>
   \<and>
   aggregate_energy_label [\<lparr>tenant_threshold.label = ''B'', percentage = 100\<rparr>]
     [\<lparr>subscription_id = ''s1'', display_name = ''one'',
           subscription_thresholds =
             [\<lparr>threshold.label = ''A'', high = 0, medium = 0, low = 0\<rparr>,
              \<lparr>threshold.label = ''B'', high = 5, medium = 5, low = 5\<rparr>],
           energy_label = Some (mk_label SubscriptionEnergyLabel ''B'' 1 0 0)\<rparr>,
      \<lparr>subscription_id = ''s2'', display_name = ''two'',
           subscription_thresholds =
             [\<lparr>threshold.label = ''A'', high = 0, medium = 0, low = 0\<rparr>,
              \<lparr>threshold.label = ''B'', high = 5, medium = 5, low = 5\<rparr>],
           energy_label = Some (mk_label SubscriptionEnergyLabel ''A'' 0 0 0)\<rparr>]
   = Inr \<lparr>AggregateSubscriptionEnergyLabel.label = ''F'', best_label = ''A'',
          worst_label = ''B'', number_of_subscriptions = 2\<rparr>
   \<and> \<not> ''F'' \<le> ''B''"
proof -
  have "percentage_of 1 1 = 100" by code_simp
  moreover have "percentage_of 1 2 = 50" by code_simp
  ultimately show ?thesis
    by (simp add: aggregate_energy_label_def mk_label_def min_key_def max_key_def
        true_divide_def float_mul_def percentage_of_def Let_def)
qed

text \<open>
  C8, amended. For a non-empty population of labeled subscriptions and a table whose
  labels are strictly increasing, begin with \<open>A\<close> and are at most \<open>F\<close>, adding one
  subscription labeled \<open>A\<close> anywhere in the population yields an aggregate label that
  is better than or equal to the aggregate label of the original population.
\<close>

theorem adding_best_label_is_monotone:
  assumes ne: "labeled \<noteq> []"
      and all: "\<forall>x\<in>set labeled. Subscription.energy_label x \<noteq> None"
      and s: "Subscription.energy_label s = Some el"
      and a: "EnergyLabel.label el = ''A''"
      and sorted: "sorted_wrt (<) (map tenant_threshold.label ths)"
      and first: "ths = [] \<or> tenant_threshold.label (hd ths) = ''A''"
      and top: "\<forall>t\<in>set ths. tenant_threshold.label t \<le> ''F''"
  shows "\<exists>old new.
           aggregate_energy_label ths labeled = Inr old \<and>
           aggregate_energy_label ths (take k labeled @ s # drop k labeled) = Inr new \<and>
           AggregateSubscriptionEnergyLabel.label new \<le> AggregateSubscriptionEnergyLabel.label old"
proof -
  let ?new = "take k labeled @ s # drop k labeled"
  let ?xs = "subscription_labels (take k labeled)"
  let ?ys = "subscription_labels (drop k labeled)"
  have L: "subscription_labels labeled = ?xs @ ?ys"
    using subscription_labels_append [of "take k labeled" "drop k labeled"] by simp
  have L': "subscription_labels ?new = ?xs @ ''A'' # ?ys"
    using s a by (simp add: subscription_labels_append subscription_labels_Cons)
  have new_ne: "?new \<noteq> []" by simp
  have new_all: "\<forall>x\<in>set ?new. Subscription.energy_label x \<noteq> None"
    using all s by (auto dest: in_set_takeD in_set_dropD)
  have d: "distinct (map tenant_threshold.label ths)"
    using sorted by (rule sorted_wrt_less_distinct)
  have "length (subscription_labels labeled) = length labeled"
    by (rule length_subscription_labels [OF all])
  with ne L have xy: "?xs @ ?ys \<noteq> []" by auto
  have mono: "threshold_reached (subscription_labels ?new) ths i"
    if "i < length ths" and "threshold_reached (subscription_labels labeled) ths i" for i
  proof -
    from that(1) have "ths \<noteq> []" by auto
    with first have "tenant_threshold.label (hd ths) = ''A''" by simp
    from threshold_reached_added_label [OF d \<open>ths \<noteq> []\<close> this that(1) xy] that(2)
    show ?thesis unfolding L L' by simp
  qed
  let ?P = "\<lambda>i. i < length ths \<and> threshold_reached (subscription_labels labeled) ths i"
  let ?Q = "\<lambda>i. i < length ths \<and> threshold_reached (subscription_labels ?new) ths i"
  have new_cases:
    "(\<exists>i. ?Q i \<and> (\<forall>j<i. \<not> ?Q j) \<and>
          aggregate_energy_label ths ?new =
            Inr \<lparr>AggregateSubscriptionEnergyLabel.label = tenant_threshold.label (ths ! i),
                 best_label = Min (set (subscription_labels ?new)),
                 worst_label = Max (set (subscription_labels ?new)),
                 number_of_subscriptions = length ?new\<rparr>)
     \<or> ((\<forall>i. \<not> ?Q i) \<and>
          aggregate_energy_label ths ?new =
            Inr \<lparr>AggregateSubscriptionEnergyLabel.label = ''F'',
                 best_label = Min (set (subscription_labels ?new)),
                 worst_label = Max (set (subscription_labels ?new)),
                 number_of_subscriptions = length ?new\<rparr>)"
  proof (cases "\<exists>i. ?Q i")
    case True
    then obtain i where i: "?Q i" "\<forall>j<i. \<not> ?Q j"
      using exists_least_iff [of ?Q] by blast
    then have "\<forall>j<i. \<not> threshold_reached (subscription_labels ?new) ths j" by auto
    with i have "aggregate_energy_label ths ?new =
            Inr \<lparr>AggregateSubscriptionEnergyLabel.label = tenant_threshold.label (ths ! i),
                 best_label = Min (set (subscription_labels ?new)),
                 worst_label = Max (set (subscription_labels ?new)),
                 number_of_subscriptions = length ?new\<rparr>"
      by (intro aggregate_energy_label_first [OF new_ne new_all]) simp_all
    with i show ?thesis by blast
  next
    case False
    then have "\<forall>j<length ths. \<not> threshold_reached (subscription_labels ?new) ths j" by auto
    then have "aggregate_energy_label ths ?new =
            Inr \<lparr>AggregateSubscriptionEnergyLabel.label = ''F'',
                 best_label = Min (set (subscription_labels ?new)),
                 worst_label = Max (set (subscription_labels ?new)),
                 number_of_subscriptions = length ?new\<rparr>"
      by (rule aggregate_energy_label_none [OF new_ne new_all])
    with False show ?thesis by blast
  qed
  show ?thesis
  proof (cases "\<exists>i. ?P i")
    case True
    then obtain i where i: "?P i" "\<forall>j<i. \<not> ?P j"
      using exists_least_iff [of ?P] by blast
    then have "\<forall>j<i. \<not> threshold_reached (subscription_labels labeled) ths j" by auto
    with i have old: "aggregate_energy_label ths labeled =
            Inr \<lparr>AggregateSubscriptionEnergyLabel.label = tenant_threshold.label (ths ! i),
                 best_label = Min (set (subscription_labels labeled)),
                 worst_label = Max (set (subscription_labels labeled)),
                 number_of_subscriptions = length labeled\<rparr>"
      by (intro aggregate_energy_label_first [OF ne all]) simp_all
    from i mono have Qi: "?Q i" by simp
    with new_cases obtain i' where i': "?Q i'" "\<forall>j<i'. \<not> ?Q j" and
      new: "aggregate_energy_label ths ?new =
            Inr \<lparr>AggregateSubscriptionEnergyLabel.label = tenant_threshold.label (ths ! i'),
                 best_label = Min (set (subscription_labels ?new)),
                 worst_label = Max (set (subscription_labels ?new)),
                 number_of_subscriptions = length ?new\<rparr>"
      by blast
    from i'(2) Qi have le: "i' \<le> i" by (meson not_le_imp_less)
    have "tenant_threshold.label (ths ! i') \<le> tenant_threshold.label (ths ! i)"
    proof (cases "i' = i")
      case True
      then show ?thesis by simp
    next
      case False
      with le have "i' < i" by simp
      with i(1) have "map tenant_threshold.label ths ! i' < map tenant_threshold.label ths ! i"
        using sorted_wrt_nth_less [OF sorted, of i' i] by simp
      with i(1) \<open>i' < i\<close> show ?thesis by simp
    qed
    with old new show ?thesis by simp
  next
    case False
    then have "\<forall>j<length ths. \<not> threshold_reached (subscription_labels labeled) ths j" by auto
    then have old: "aggregate_energy_label ths labeled =
            Inr \<lparr>AggregateSubscriptionEnergyLabel.label = ''F'',
                 best_label = Min (set (subscription_labels labeled)),
                 worst_label = Max (set (subscription_labels labeled)),
                 number_of_subscriptions = length labeled\<rparr>"
      by (rule aggregate_energy_label_none [OF ne all])
    from new_cases show ?thesis
    proof
      assume "\<exists>i. ?Q i \<and> (\<forall>j<i. \<not> ?Q j) \<and>
          aggregate_energy_label ths ?new =
            Inr \<lparr>AggregateSubscriptionEnergyLabel.label = tenant_threshold.label (ths ! i),
                 best_label = Min (set (subscription_labels ?new)),
                 worst_label = Max (set (subscription_labels ?new)),
                 number_of_subscriptions = length ?new\<rparr>"
      then obtain i where i: "i < length ths" and
        new: "aggregate_energy_label ths ?new =
            Inr \<lparr>AggregateSubscriptionEnergyLabel.label = tenant_threshold.label (ths ! i),
                 best_label = Min (set (subscription_labels ?new)),
                 worst_label = Max (set (subscription_labels ?new)),
                 number_of_subscriptions = length ?new\<rparr>"
        by blast
      from i top have "tenant_threshold.label (ths ! i) \<le> ''F''" by simp
      with old new show ?thesis by simp
    next
      assume "(\<forall>i. \<not> ?Q i) \<and>
          aggregate_energy_label ths ?new =
            Inr \<lparr>AggregateSubscriptionEnergyLabel.label = ''F'',
                 best_label = Min (set (subscription_labels ?new)),
                 worst_label = Max (set (subscription_labels ?new)),
                 number_of_subscriptions = length ?new\<rparr>"
      with old show ?thesis by simp
    qed
  qed
qed

theorem adding_best_label_is_monotone_witness:
  "(\<exists>old new.
      aggregate_energy_label
        [\<lparr>tenant_threshold.label = ''A'', percentage = 50\<rparr>,
         \<lparr>tenant_threshold.label = ''B'', percentage = 50\<rparr>]
        [\<lparr>subscription_id = ''s1'', display_name = ''one'',
           subscription_thresholds =
             [\<lparr>threshold.label = ''A'', high = 0, medium = 0, low = 0\<rparr>,
              \<lparr>threshold.label = ''B'', high = 5, medium = 5, low = 5\<rparr>],
           energy_label = Some (mk_label SubscriptionEnergyLabel ''B'' 1 0 0)\<rparr>] = Inr old \<and>
      aggregate_energy_label
        [\<lparr>tenant_threshold.label = ''A'', percentage = 50\<rparr>,
         \<lparr>tenant_threshold.label = ''B'', percentage = 50\<rparr>]
        [\<lparr>subscription_id = ''s1'', display_name = ''one'',
           subscription_thresholds =
             [\<lparr>threshold.label = ''A'', high = 0, medium = 0, low = 0\<rparr>,
              \<lparr>threshold.label = ''B'', high = 5, medium = 5, low = 5\<rparr>],
           energy_label = Some (mk_label SubscriptionEnergyLabel ''B'' 1 0 0)\<rparr>,
         \<lparr>subscription_id = ''s2'', display_name = ''two'',
           subscription_thresholds =
             [\<lparr>threshold.label = ''A'', high = 0, medium = 0, low = 0\<rparr>,
              \<lparr>threshold.label = ''B'', high = 5, medium = 5, low = 5\<rparr>],
           energy_label = Some (mk_label SubscriptionEnergyLabel ''A'' 0 0 0)\<rparr>] = Inr new \<and>
      AggregateSubscriptionEnergyLabel.label new \<le> AggregateSubscriptionEnergyLabel.label old)
   \<and>
   aggregate_energy_label
     [\<lparr>tenant_threshold.label = ''A'', percentage = 50\<rparr>,
      \<lparr>tenant_threshold.label = ''B'', percentage = 50\<rparr>]
     [\<lparr>subscription_id = ''s1'', display_name = ''one'',
           subscription_thresholds =
             [\<lparr>threshold.label = ''A'', high = 0, medium = 0, low = 0\<rparr>,
              \<lparr>threshold.label = ''B'', high = 5, medium = 5, low = 5\<rparr>],
           energy_label = Some (mk_label SubscriptionEnergyLabel ''B'' 1 0 0)\<rparr>]
   = Inr \<lparr>AggregateSubscriptionEnergyLabel.label = ''B'', best_label = ''B'',
          worst_label = ''B'', number_of_subscriptions = 1\<rparr>
   \<and>
   aggregate_energy_label
     [\<lparr>tenant_threshold.label = ''A'', percentage = 50\<rparr>,
      \<lparr>tenant_threshold.label = ''B'', percentage = 50\<rparr>]
     [\<lparr>subscription_id = ''s1'', display_name = ''one'',
           subscription_thresholds =
             [\<lparr>threshold.label = ''A'', high = 0, medium = 0, low = 0\<rparr>,
              \<lparr>threshold.label = ''B'', high = 5, medium = 5, low = 5\<rparr>],
           energy_label = Some (mk_label SubscriptionEnergyLabel ''B'' 1 0 0)\<rparr>,
      \<lparr>subscription_id = ''s2'', display_name = ''two'',
           subscription_thresholds =
             [\<lparr>threshold.label = ''A'', high = 0, medium = 0, low = 0\<rparr>,
              \<lparr>threshold.label = ''B'', high = 5, medium = 5, low = 5\<rparr>],
           energy_label = Some (mk_label SubscriptionEnergyLabel ''A'' 0 0 0)\<rparr>]
   = Inr \<lparr>AggregateSubscriptionEnergyLabel.label = ''A'', best_label = ''A'',
          worst_label = ''B'', number_of_subscriptions = 2\<rparr>"
proof -
  have p: "percentage_of 0 1 = 0" "percentage_of 1 1 = 100" "percentage_of 1 2 = 50"
    by code_simp+
  have ev:
    "aggregate_energy_label
       [\<lparr>tenant_threshold.label = ''A'', percentage = 50\<rparr>,
        \<lparr>tenant_threshold.label = ''B'', percentage = 50\<rparr>]
       [\<lparr>subscription_id = ''s1'', display_name = ''one'',
           subscription_thresholds =
             [\<lparr>threshold.label = ''A'', high = 0, medium = 0, low = 0\<rparr>,
              \<lparr>threshold.label = ''B'', high = 5, medium = 5, low = 5\<rparr>],
           energy_label = Some (mk_label SubscriptionEnergyLabel ''B'' 1 0 0)\<rparr>]
     = Inr \<lparr>AggregateSubscriptionEnergyLabel.label = ''B'', best_label = ''B'',
            worst_label = ''B'', number_of_subscriptions = 1\<rparr>"
    "aggregate_energy_label
       [\<lparr>tenant_threshold.label = ''A'', percentage = 50\<rparr>,
        \<lparr>tenant_threshold.label = ''B'', percentage = 50\<rparr>]
       [\<lparr>subscription_id = ''s1'', display_name = ''one'',
           subscription_thresholds =
             [\<lparr>threshold.label = ''A'', high = 0, medium = 0, low = 0\<rparr>,
              \<lparr>threshold.label = ''B'', high = 5, medium = 5, low = 5\<rparr>],
           energy_label = Some (mk_label SubscriptionEnergyLabel ''B'' 1 0 0)\<rparr>,
        \<lparr>subscription_id = ''s2'', display_name = ''two'',
           subscription_thresholds =
             [\<lparr>threshold.label = ''A'', high = 0, medium = 0, low = 0\<rparr>,
              \<lparr>threshold.label = ''B'', high = 5, medium = 5, low = 5\<rparr>],
           energy_label = Some (mk_label SubscriptionEnergyLabel ''A'' 0 0 0)\<rparr>]
     = Inr \<lparr>AggregateSubscriptionEnergyLabel.label = ''A'', best_label = ''A'',
            worst_label = ''B'', number_of_subscriptions = 2\<rparr>"
    using p
    by (simp_all add: aggregate_energy_label_def mk_label_def min_key_def max_key_def
        true_divide_def float_mul_def percentage_of_def Let_def)
  from adding_best_label_is_monotone
         [where labeled = "[\<lparr>subscription_id = ''s1'', display_name = ''one'',
           subscription_thresholds =
             [\<lparr>threshold.label = ''A'', high = 0, medium = 0, low = 0\<rparr>,
              \<lparr>threshold.label = ''B'', high = 5, medium = 5, low = 5\<rparr>],
           energy_label = Some (mk_label SubscriptionEnergyLabel ''B'' 1 0 0)\<rparr>]"
            and s = "\<lparr>subscription_id = ''s2'', display_name = ''two'',
           subscription_thresholds =
             [\<lparr>threshold.label = ''A'', high = 0, medium = 0, low = 0\<rparr>,
              \<lparr>threshold.label = ''B'', high = 5, medium = 5, low = 5\<rparr>],
           energy_label = Some (mk_label SubscriptionEnergyLabel ''A'' 0 0 0)\<rparr>"
            and el = "mk_label SubscriptionEnergyLabel ''A'' 0 0 0"
            and ths = "[\<lparr>tenant_threshold.label = ''A'', percentage = 50\<rparr>,
                        \<lparr>tenant_threshold.label = ''B'', percentage = 50\<rparr>]"
            and k = 1]
  have "\<exists>old new.
      aggregate_energy_label
        [\<lparr>tenant_threshold.label = ''A'', percentage = 50\<rparr>,
         \<lparr>tenant_threshold.label = ''B'', percentage = 50\<rparr>]
        [\<lparr>subscription_id = ''s1'', display_name = ''one'',
           subscription_thresholds =
             [\<lparr>threshold.label = ''A'', high = 0, medium = 0, low = 0\<rparr>,
              \<lparr>threshold.label = ''B'', high = 5, medium = 5, low = 5\<rparr>],
           energy_label = Some (mk_label SubscriptionEnergyLabel ''B'' 1 0 0)\<rparr>] = Inr old \<and>
      aggregate_energy_label
        [\<lparr>tenant_threshold.label = ''A'', percentage = 50\<rparr>,
         \<lparr>tenant_threshold.label = ''B'', percentage = 50\<rparr>]
        [\<lparr>subscription_id = ''s1'', display_name = ''one'',
           subscription_thresholds =
             [\<lparr>threshold.label = ''A'', high = 0, medium = 0, low = 0\<rparr>,
              \<lparr>threshold.label = ''B'', high = 5, medium = 5, low = 5\<rparr>],
           energy_label = Some (mk_label SubscriptionEnergyLabel ''B'' 1 0 0)\<rparr>,
         \<lparr>subscription_id = ''s2'', display_name = ''two'',
           subscription_thresholds =
             [\<lparr>threshold.label = ''A'', high = 0, medium = 0, low = 0\<rparr>,
              \<lparr>threshold.label = ''B'', high = 5, medium = 5, low = 5\<rparr>],
           energy_label = Some (mk_label SubscriptionEnergyLabel ''A'' 0 0 0)\<rparr>] = Inr new \<and>
      AggregateSubscriptionEnergyLabel.label new \<le> AggregateSubscriptionEnergyLabel.label old"
    by (simp add: mk_label_def)
  with ev show ?thesis by blast
qed

end
